theory Spec2Isabelle
  imports Complex_Main "HOL-Library.AList"
begin

section \<open>Python values used by the two modules\<close>

text \<open>
  Python \<open>str\<close> values are modelled as \<open>string\<close> (lists of 8-bit characters): a
  \<open>string\<close> is the UTF-8 encoding of the Python string, so ASCII text is itself.
  Splitting, joining and replacing at ASCII characters act on the encoding as they act
  on the string. Two library functions look inside characters outside ASCII:
  \<open>unquote\<close>, which decodes UTF-8, and \<open>str.lower\<close>, whose mapping outside ASCII comes
  from the Unicode tables of the interpreter. A Python string with a lone surrogate
  has no UTF-8 encoding and is outside the model.

  Exceptions are values: one constructor per Python exception class that the two
  modules can raise or let through, carrying the message where the source gives one.
\<close>

datatype py_error =
  ValueError string
| RuntimeError string
| IndexError
| KeyError string
| TypeError
| TimeoutExpired
| FileNotFoundError string
| FileExistsError string
| IsADirectoryError string
| ReadError
| ShutilError
| HubError string

text \<open>The error kinds of the specification, each the exception of one raise site.\<close>

definition UnsupportedSource :: py_error where
  "UnsupportedSource =
     ValueError (''URL must be from '' @ [CHR 0x27] @ ''huggingface.co'' @ [CHR 0x27] @ '', ''
       @ [CHR 0x27] @ ''civitai.com'' @ [CHR 0x27] @ '', or ''
       @ [CHR 0x27] @ ''replicate.delivery'' @ [CHR 0x27])"

definition MalformedUrl :: "string \<Rightarrow> py_error" where
  "MalformedUrl url = ValueError (''HuggingFace URL does not contain enough parts: '' @ url)"

definition DownloadFailed :: py_error where
  "DownloadFailed = RuntimeError ''Download failed.''"

definition DownloadTimeout :: py_error where
  "DownloadTimeout = RuntimeError ''Download failed due to timeout''"

definition ArchiveEntryMissing :: py_error where
  "ArchiveEntryMissing = ValueError ''LoRA file not found in the downloaded tar''"

subsection \<open>String methods\<close>

definition startswith :: "string \<Rightarrow> string \<Rightarrow> bool" where
  "startswith s p = (take (length p) s = p)"

text \<open>\<open>s.split(sep)\<close> for a one-character separator: never the empty list.\<close>

fun split_str :: "char \<Rightarrow> string \<Rightarrow> string list" where
  "split_str sep [] = [[]]"
| "split_str sep (c # cs) =
     (if c = sep then [] # split_str sep cs
      else (case split_str sep cs of
              [] \<Rightarrow> [[c]]
            | w # ws \<Rightarrow> (c # w) # ws))"

text \<open>\<open>sep.join(parts)\<close>.\<close>

fun join_str :: "string \<Rightarrow> string list \<Rightarrow> string" where
  "join_str sep [] = []"
| "join_str sep [p] = p"
| "join_str sep (p # q # ps) = p @ sep @ join_str sep (q # ps)"

text \<open>\<open>s.replace(a, b)\<close> for one-character \<open>a\<close> and \<open>b\<close>.\<close>

definition replace_char :: "char \<Rightarrow> char \<Rightarrow> string \<Rightarrow> string" where
  "replace_char a b s = map (\<lambda>c. if c = a then b else c) s"

definition lower_char :: "char \<Rightarrow> char" where
  "lower_char c =
     (let n = (of_char c :: nat) in if 65 \<le> n \<and> n \<le> 90 then char_of (n + 32) else c)"

definition is_ascii :: "char \<Rightarrow> bool" where
  "is_ascii c = ((of_char c :: nat) < 128)"

definition ascii_lower :: "string \<Rightarrow> string" where
  "ascii_lower s = map lower_char s"

text \<open>
  \<open>s.lower()\<close>. CPython maps an ASCII string letter by letter and hands any other string
  to the case mapping of its Unicode database. That mapping is a table of the
  interpreter and not of this repository: it is the parameter \<open>unicode_lower\<close>, from
  the encoding of a string with a character outside ASCII to the encoding of its
  lower case.
\<close>

definition lower :: "(string \<Rightarrow> string) \<Rightarrow> string \<Rightarrow> string" where
  "lower unicode_lower s = (if list_all is_ascii s then ascii_lower s else unicode_lower s)"

text \<open>\<open>xs[i]\<close> on a list: an index below zero is taken from the end, one out of range raises.\<close>

definition py_index :: "'a list \<Rightarrow> int \<Rightarrow> py_error + 'a" where
  "py_index xs i =
     (if 0 \<le> i \<and> i < int (length xs) then Inr (xs ! nat i)
      else if i < 0 \<and> - i \<le> int (length xs) then Inr (xs ! (length xs - nat (- i)))
      else Inl IndexError)"

text \<open>\<open>os.path.join(a, b)\<close> on POSIX.\<close>

definition os_path_join :: "string \<Rightarrow> string \<Rightarrow> string" where
  "os_path_join a b =
     (if startswith b ''/'' then b
      else if a = [] \<or> last a = CHR ''/'' then a @ b
      else a @ ''/'' @ b)"

subsection \<open>\<open>urllib.parse\<close>\<close>

text \<open>
  \<open>urllib.parse.urlparse\<close> of the standard library, for \<open>str\<close> arguments with the default
  \<open>scheme\<close> and \<open>allow_fragments\<close>. It follows CPython's \<open>urlsplit\<close> step by step: leading
  control characters and spaces are stripped, tab, carriage return and line feed are
  removed, a scheme is split off at the first colon, a network location after \<open>//\<close> runs
  to the first of \<open>/ ? #\<close>, then the fragment and the query are split off; \<open>urlparse\<close>
  finally splits the parameters off the last path segment. The scheme is made of ASCII
  letters, digits and \<open>+-.\<close> where it is put in lower case, so \<open>str.lower\<close> is
  \<open>ascii_lower\<close> there. A network location with
  an unmatched square bracket raises \<open>ValueError\<close>. The validation of a bracketed host's
  contents and of a network location outside ASCII is left out: it can only turn a
  result into a further \<open>ValueError\<close>.
\<close>

record parse_result =
  scheme :: string
  netloc :: string
  path :: string
  params :: string
  query :: string
  fragment :: string

definition is_ascii_alpha :: "char \<Rightarrow> bool" where
  "is_ascii_alpha c =
     (let n = (of_char c :: nat) in (65 \<le> n \<and> n \<le> 90) \<or> (97 \<le> n \<and> n \<le> 122))"

definition is_digit :: "char \<Rightarrow> bool" where
  "is_digit c = (let n = (of_char c :: nat) in 48 \<le> n \<and> n \<le> 57)"

definition scheme_char :: "char \<Rightarrow> bool" where
  "scheme_char c = (is_ascii_alpha c \<or> is_digit c \<or> c \<in> set ''+-.'')"

definition uses_params :: "string list" where
  "uses_params = ['''', ''ftp'', ''hdl'', ''prospero'', ''http'', ''imap'', ''https'', ''shttp'',
     ''rtsp'', ''rtspu'', ''sip'', ''sips'', ''mms'', ''sftp'', ''tel'']"

text \<open>\<open>s.split(sep, 1)\<close> as a pair, for a separator that occurs in \<open>s\<close>.\<close>

definition split_once :: "char \<Rightarrow> string \<Rightarrow> string \<times> string" where
  "split_once sep s = (takeWhile (\<lambda>c. c \<noteq> sep) s, tl (dropWhile (\<lambda>c. c \<noteq> sep) s))"

definition splitnetloc :: "string \<Rightarrow> string \<times> string" where
  "splitnetloc url =
     (takeWhile (\<lambda>c. c \<notin> set ''/?#'') (drop 2 url),
      dropWhile (\<lambda>c. c \<notin> set ''/?#'') (drop 2 url))"

definition splitparams :: "string \<Rightarrow> string \<times> string" where
  "splitparams url =
     (if CHR ''/'' \<in> set url then
        (let seg = rev (takeWhile (\<lambda>c. c \<noteq> CHR ''/'') (rev url));
             front = take (length url - length seg) url
         in if CHR '';'' \<in> set seg
            then (front @ fst (split_once CHR '';'' seg), snd (split_once CHR '';'' seg))
            else (url, []))
      else split_once CHR '';'' url)"

definition urlparse :: "string \<Rightarrow> py_error + parse_result" where
  "urlparse url0 =
     (let url1 = dropWhile (\<lambda>c. (of_char c :: nat) \<le> 32) url0;
          url2 = filter (\<lambda>c. (of_char c :: nat) \<notin> {9, 10, 13}) url1;
          cand = takeWhile (\<lambda>c. c \<noteq> CHR '':'') url2;
          has_scheme = (CHR '':'' \<in> set url2 \<and> cand \<noteq> [] \<and> is_ascii_alpha (hd url2)
                         \<and> list_all scheme_char cand);
          sch = (if has_scheme then ascii_lower cand else []);
          url3 = (if has_scheme then drop (Suc (length cand)) url2 else url2);
          has_netloc = (take 2 url3 = ''//'');
          nl = (if has_netloc then fst (splitnetloc url3) else []);
          url4 = (if has_netloc then snd (splitnetloc url3) else url3)
      in if has_netloc \<and> ((CHR ''['' \<in> set nl \<and> CHR '']'' \<notin> set nl)
                          \<or> (CHR '']'' \<in> set nl \<and> CHR ''['' \<notin> set nl))
         then Inl (ValueError ''Invalid IPv6 URL'')
         else
           (let frag = (if CHR ''#'' \<in> set url4 then snd (split_once CHR ''#'' url4) else []);
                url5 = (if CHR ''#'' \<in> set url4 then fst (split_once CHR ''#'' url4) else url4);
                qry = (if CHR ''?'' \<in> set url5 then snd (split_once CHR ''?'' url5) else []);
                url6 = (if CHR ''?'' \<in> set url5 then fst (split_once CHR ''?'' url5) else url5);
                with_params = (sch \<in> set uses_params \<and> CHR '';'' \<in> set url6)
            in Inr \<lparr> scheme = sch, netloc = nl,
                     path = (if with_params then fst (splitparams url6) else url6),
                     params = (if with_params then snd (splitparams url6) else []),
                     query = qry, fragment = frag \<rparr>))"

text \<open>
  \<open>bytes.decode("utf-8", "replace")\<close>, on the encoding: a well-formed sequence stays as
  it is; a byte that cannot start a sequence, and a start byte with as many of the
  following bytes as continue it well, become one replacement character U+FFFD, and
  decoding goes on at the next byte.
\<close>

definition continuation :: "char \<Rightarrow> bool" where
  "continuation c = (128 \<le> (of_char c :: nat) \<and> (of_char c :: nat) < 192)"

text \<open>The number of bytes of the sequence that a byte starts; 0 for a byte that starts none.\<close>

definition sequence_length :: "char \<Rightarrow> nat" where
  "sequence_length c =
     (let n = (of_char c :: nat) in
      if n < 128 then 1
      else if 194 \<le> n \<and> n < 224 then 2
      else if 224 \<le> n \<and> n < 240 then 3
      else if 240 \<le> n \<and> n < 245 then 4
      else 0)"

text \<open>
  The second byte of a sequence is a continuation byte in the range that the start
  byte leaves: overlong forms, surrogates and code points above U+10FFFF are no
  sequences.
\<close>

definition second_byte :: "char \<Rightarrow> char \<Rightarrow> bool" where
  "second_byte c c2 =
     (let n = (of_char c :: nat); n2 = (of_char c2 :: nat) in
      continuation c2
      \<and> (if n = 224 then 160 \<le> n2
         else if n = 237 then n2 < 160
         else if n = 240 then 144 \<le> n2
         else if n = 244 then n2 < 144
         else True))"

text \<open>How many of the \<open>n\<close> bytes expected after the start byte \<open>c\<close> are there in \<open>cs\<close>.\<close>

definition valid_tail :: "char \<Rightarrow> string \<Rightarrow> nat \<Rightarrow> nat" where
  "valid_tail c cs n =
     (case cs of
        [] \<Rightarrow> 0
      | c2 # r \<Rightarrow>
          if 0 < n \<and> second_byte c c2
          then Suc (length (takeWhile continuation (take (n - 1) r)))
          else 0)"

definition replacement_character :: string where
  "replacement_character = [char_of (239::nat), char_of (191::nat), char_of (189::nat)]"

function decode_replace :: "string \<Rightarrow> string" where
  "decode_replace [] = []"
| "decode_replace (c # cs) =
     (if sequence_length c = 0 then replacement_character @ decode_replace cs
      else (let k = valid_tail c cs (sequence_length c - 1) in
            if Suc k = sequence_length c then (c # take k cs) @ decode_replace (drop k cs)
            else replacement_character @ decode_replace (drop k cs)))"
  by pat_completeness auto
termination
  by (relation "measure length") auto

text \<open>
  \<open>urllib.parse.unquote_to_bytes\<close>: each \<open>%XX\<close> with two hexadecimal digits becomes the
  byte it names; any other \<open>%\<close> stays.
\<close>

definition hex_val :: "char \<Rightarrow> nat option" where
  "hex_val c =
     (let n = (of_char c :: nat) in
      if 48 \<le> n \<and> n \<le> 57 then Some (n - 48)
      else if 65 \<le> n \<and> n \<le> 70 then Some (n - 55)
      else if 97 \<le> n \<and> n \<le> 102 then Some (n - 87)
      else None)"

fun unquote_to_bytes :: "string \<Rightarrow> string" where
  "unquote_to_bytes [] = []"
| "unquote_to_bytes [c] = [c]"
| "unquote_to_bytes [c, d] = [c, d]"
| "unquote_to_bytes (c # a # b # rest) =
     (if c = CHR ''%'' then
        (case (hex_val a, hex_val b) of
           (Some h, Some l) \<Rightarrow> char_of (16 * h + l) # unquote_to_bytes rest
         | _ \<Rightarrow> c # unquote_to_bytes (a # b # rest))
      else c # unquote_to_bytes (a # b # rest))"

text \<open>
  \<open>urllib.parse.unquote\<close> with its defaults, \<open>encoding="utf-8"\<close> and \<open>errors="replace"\<close>: a
  string with no \<open>%\<close> comes back as it is; otherwise every longest run of ASCII
  characters is unquoted to bytes and these are decoded, and the characters outside
  ASCII between the runs stay.
\<close>

function unquote_runs :: "string \<Rightarrow> string" where
  "unquote_runs [] = []"
| "unquote_runs (c # cs) =
     (if is_ascii c
      then decode_replace (unquote_to_bytes (c # takeWhile is_ascii cs))
           @ unquote_runs (dropWhile is_ascii cs)
      else c # unquote_runs cs)"
  by pat_completeness auto
termination
  by (relation "measure length") (auto simp: length_dropWhile_le less_Suc_eq_le)

definition unquote :: "string \<Rightarrow> string" where
  "unquote s = (if CHR ''%'' \<notin> set s then s else unquote_runs s)"

text \<open>
  \<open>urllib.parse.parse_qsl\<close> and \<open>parse_qs\<close> with their defaults: fields are separated by
  \<open>&\<close>; a field with no \<open>=\<close> or with a blank value is dropped; in names and values \<open>+\<close>
  becomes a space and \<open>unquote\<close> decodes the percent escapes. The dictionary that \<open>parse_qs\<close>
  returns maps a name to the list of its values in order of appearance.
\<close>

definition parse_field :: "string \<Rightarrow> (string \<times> string) list" where
  "parse_field name_value =
     (if name_value = [] then []
      else if CHR ''='' \<notin> set name_value then []
      else (let nv = split_once CHR ''='' name_value in
            if snd nv = [] then []
            else [(unquote (replace_char CHR ''+'' CHR '' '' (fst nv)),
                   unquote (replace_char CHR ''+'' CHR '' '' (snd nv)))]))"

definition parse_qsl :: "string \<Rightarrow> (string \<times> string) list" where
  "parse_qsl qs = concat (map parse_field (split_str CHR ''&'' qs))"

definition parse_qs :: "string \<Rightarrow> (string \<rightharpoonup> string list)" where
  "parse_qs qs name =
     (let vs = map snd (filter (\<lambda>nv. fst nv = name) (parse_qsl qs))
      in if vs = [] then None else Some vs)"

text \<open>\<open>d.get(key, default)\<close>.\<close>

definition dict_get :: "('k \<rightharpoonup> 'v) \<Rightarrow> 'k \<Rightarrow> 'v \<Rightarrow> 'v" where
  "dict_get d k dflt = (case d k of None \<Rightarrow> dflt | Some v \<Rightarrow> v)"

section \<open>\<open>download_external_lora.py\<close>: file names\<close>

definition HF_TEMP_DIR :: string where
  "HF_TEMP_DIR = ''TEMP_HF''"

definition COMFYUI_LORA_DIR :: string where
  "COMFYUI_LORA_DIR = ''ComfyUI/models/loras''"

definition get_replicate_filename :: "string \<Rightarrow> py_error + string" where
  "get_replicate_filename url =
     (case py_index (split_str CHR ''/'' url) (- 2) of
        Inl e \<Rightarrow> Inl e
      | Inr unique_id \<Rightarrow> Inr (''replicate_lora_'' @ unique_id @ ''.safetensors''))"

text \<open>
  The loop of \<open>get_civitai_filename\<close> over the parameter names, with \<open>filename_parts\<close> as
  the accumulator. The function calls \<open>str.lower\<close> and so takes \<open>unicode_lower\<close>, as do its
  callers.
\<close>

fun civitai_params :: "(string \<Rightarrow> string) \<Rightarrow> (string \<rightharpoonup> string list) \<Rightarrow> string list
    \<Rightarrow> string list \<Rightarrow> py_error + string list" where
  "civitai_params unicode_lower query_params [] filename_parts = Inr filename_parts"
| "civitai_params unicode_lower query_params (param # rest) filename_parts =
     (case py_index (dict_get query_params param ['''']) 0 of
        Inl e \<Rightarrow> Inl e
      | Inr v \<Rightarrow>
          if v \<noteq> []
          then civitai_params unicode_lower query_params rest
                 (filename_parts @ [lower unicode_lower v])
          else civitai_params unicode_lower query_params rest filename_parts)"

definition get_civitai_filename :: "(string \<Rightarrow> string) \<Rightarrow> string \<Rightarrow> py_error + string" where
  "get_civitai_filename unicode_lower url =
     (case urlparse url of
        Inl e \<Rightarrow> Inl e
      | Inr parsed_url \<Rightarrow>
          (case py_index (split_str CHR ''/'' (path parsed_url)) (- 1) of
             Inl e \<Rightarrow> Inl e
           | Inr model_id \<Rightarrow>
               (case civitai_params unicode_lower (parse_qs (query parsed_url))
                       [''type'', ''format'', ''size'', ''fp''] [''civitai_'' @ model_id] of
                  Inl e \<Rightarrow> Inl e
                | Inr filename_parts \<Rightarrow> Inr (join_str ''_'' filename_parts @ ''.safetensors''))))"

text \<open>
  The result of \<open>extract_parts_from_huggingface_url\<close> is the tuple
  \<open>(repo_id, revision, filename_and_path, filename)\<close>.
\<close>

definition extract_parts_from_huggingface_url ::
    "string \<Rightarrow> py_error + (string \<times> string \<times> string list \<times> string)" where
  "extract_parts_from_huggingface_url url =
     (case urlparse url of
        Inl e \<Rightarrow> Inl e
      | Inr parsed_url \<Rightarrow>
          (let path_parts = split_str CHR ''/'' (path parsed_url) in
           if length path_parts < 5 then Inl (MalformedUrl url)
           else
             (case (py_index path_parts 1, py_index path_parts 2, py_index path_parts 4) of
                (Inr p1, Inr p2, Inr p4) \<Rightarrow>
                  (let filename_and_path = drop 5 path_parts in
                   case py_index filename_and_path (- 1) of
                     Inl e \<Rightarrow> Inl e
                   | Inr filename \<Rightarrow> Inr (p1 @ ''/'' @ p2, p4, filename_and_path, filename))
              | _ \<Rightarrow> Inl IndexError)))"

section \<open>The file system and the external collaborators\<close>

text \<open>
  The file system maps a path to what is there; \<open>os.path.exists\<close> is true of files and
  of directories. The world also records, in order, every call that leaves the process:
  each \<open>subprocess.run\<close> and each \<open>hf_hub_download\<close>.
\<close>

datatype fnode = File string | Dir

type_synonym fs = "string \<rightharpoonup> fnode"

datatype event =
  SubprocessRun "string list" nat
| HfHubDownload string string string string

record world =
  files :: fs
  trace :: "event list"

text \<open>
  What the program cannot decide is a parameter: the outcome of running a command
  under a timeout and what the command leaves on disk, the result of the hub
  client and what it leaves on disk, and the members of a tar archive given its bytes
  (\<open>None\<close> when the bytes are no archive).
\<close>

datatype proc_outcome = Exited int | TimedOut

datatype tar_member = RegFile string | NonFile

record env =
  run_command :: "string list \<Rightarrow> nat \<Rightarrow> fs \<Rightarrow> proc_outcome \<times> fs"
  hub_client :: "string \<Rightarrow> string \<Rightarrow> string \<Rightarrow> string \<Rightarrow> fs \<Rightarrow> (py_error + string) \<times> fs"
  tar_members :: "string \<Rightarrow> (string \<rightharpoonup> tar_member) option"

definition os_path_exists :: "fs \<Rightarrow> string \<Rightarrow> bool" where
  "os_path_exists f p = (f p \<noteq> None)"

text \<open>
  \<open>subprocess.run(args, timeout=t)\<close>: the call is recorded; on a timeout the child is
  killed and \<open>TimeoutExpired\<close> is raised, otherwise the return code comes back.
\<close>

definition subprocess_run :: "env \<Rightarrow> string list \<Rightarrow> nat \<Rightarrow> world \<Rightarrow> (py_error + int) \<times> world" where
  "subprocess_run e args t w =
     (let r = run_command e args t (files w);
          w' = \<lparr> files = snd r, trace = trace w @ [SubprocessRun args t] \<rparr>
      in case fst r of
           TimedOut \<Rightarrow> (Inl TimeoutExpired, w')
         | Exited rc \<Rightarrow> (Inr rc, w'))"

definition hf_hub_download ::
    "env \<Rightarrow> string \<Rightarrow> string \<Rightarrow> string \<Rightarrow> string \<Rightarrow> world \<Rightarrow> (py_error + string) \<times> world" where
  "hf_hub_download e repo_id revision filename local_dir w =
     (let r = hub_client e repo_id revision filename local_dir (files w)
      in (fst r, \<lparr> files = snd r,
                   trace = trace w @ [HfHubDownload repo_id revision filename local_dir] \<rparr>))"

text \<open>
  \<open>os.makedirs(d, exist_ok=True)\<close>: every prefix of the path becomes a directory; a file
  in the way raises.
\<close>

fun make_dirs :: "fs \<Rightarrow> string \<Rightarrow> string list \<Rightarrow> py_error + fs" where
  "make_dirs f pre [] = Inr f"
| "make_dirs f pre (c # cs) =
     (let d = (if pre = [] then c else pre @ ''/'' @ c) in
      case f d of
        Some (File x) \<Rightarrow> Inl (FileExistsError d)
      | _ \<Rightarrow> make_dirs (f(d \<mapsto> Dir)) d cs)"

definition os_makedirs :: "string \<Rightarrow> fs \<Rightarrow> py_error + fs" where
  "os_makedirs d f = make_dirs f [] (split_str CHR ''/'' d)"

text \<open>\<open>open(p, "wb")\<close> followed by one \<open>write\<close>, in a directory that exists.\<close>

definition write_file :: "string \<Rightarrow> string \<Rightarrow> fs \<Rightarrow> py_error + fs" where
  "write_file p content f =
     (case f p of
        Some Dir \<Rightarrow> Inl (IsADirectoryError p)
      | _ \<Rightarrow> Inr (f(p \<mapsto> File content)))"

definition os_unlink :: "string \<Rightarrow> fs \<Rightarrow> py_error + fs" where
  "os_unlink p f =
     (case f p of
        None \<Rightarrow> Inl (FileNotFoundError p)
      | Some Dir \<Rightarrow> Inl (IsADirectoryError p)
      | Some (File x) \<Rightarrow> Inr (f(p := None)))"

text \<open>
  \<open>shutil.move(src, dst)\<close>: into \<open>dst\<close> when that is a directory (and then nothing of the
  same name may be there), onto \<open>dst\<close> otherwise.
\<close>

definition basename :: "string \<Rightarrow> string" where
  "basename p = last (split_str CHR ''/'' (rev (dropWhile (\<lambda>c. c = CHR ''/'') (rev p))))"

definition shutil_move :: "string \<Rightarrow> string \<Rightarrow> fs \<Rightarrow> py_error + fs" where
  "shutil_move src dst f =
     (case f src of
        None \<Rightarrow> Inl (FileNotFoundError src)
      | Some n \<Rightarrow>
          (case f dst of
             Some Dir \<Rightarrow>
               (let real_dst = os_path_join dst (basename src) in
                if os_path_exists f real_dst then Inl ShutilError
                else Inr ((f(src := None))(real_dst \<mapsto> n)))
           | _ \<Rightarrow> Inr ((f(src := None))(dst \<mapsto> n))))"

text \<open>
  \<open>tarfile.open(p, "r")\<close> and \<open>TarFile.extractfile(name)\<close>: a name that is not in the
  archive raises \<open>KeyError\<close>; a member that is no regular file gives \<open>None\<close>.
\<close>

definition tarfile_open :: "env \<Rightarrow> string \<Rightarrow> fs \<Rightarrow> py_error + (string \<rightharpoonup> tar_member)" where
  "tarfile_open e p f =
     (case f p of
        None \<Rightarrow> Inl (FileNotFoundError p)
      | Some Dir \<Rightarrow> Inl (IsADirectoryError p)
      | Some (File bytes) \<Rightarrow>
          (case tar_members e bytes of
             None \<Rightarrow> Inl ReadError
           | Some members \<Rightarrow> Inr members))"

definition extractfile :: "(string \<rightharpoonup> tar_member) \<Rightarrow> string \<Rightarrow> py_error + string option" where
  "extractfile tar name =
     (case tar name of
        None \<Rightarrow> Inl (KeyError name)
      | Some NonFile \<Rightarrow> Inr None
      | Some (RegFile bytes) \<Rightarrow> Inr (Some bytes))"

section \<open>\<open>download_external_lora.py\<close>: the three provider paths and the dispatch\<close>

text \<open>
  Each function takes the world and returns its result, a file name or the exception
  raised, with the world as it is then. Output written with \<open>print\<close> and the clock
  readings that are only printed are left out.
\<close>

definition download_from_huggingface :: "env \<Rightarrow> string \<Rightarrow> world \<Rightarrow> (py_error + string) \<times> world" where
  "download_from_huggingface e url w =
     (case extract_parts_from_huggingface_url url of
        Inl err \<Rightarrow> (Inl err, w)
      | Inr (repo_id, revision, filename_and_path, original_filename) \<Rightarrow>
          (let filename = replace_char CHR ''/'' CHR ''_'' repo_id @ ''_'' @ original_filename;
               dest_path = os_path_join COMFYUI_LORA_DIR filename
           in if os_path_exists (files w) dest_path then (Inr filename, w)
              else
                (case hf_hub_download e repo_id revision (join_str ''/'' filename_and_path)
                        HF_TEMP_DIR w of
                   (Inl err, w1) \<Rightarrow> (Inl err, w1)
                 | (Inr file_path, w1) \<Rightarrow>
                     (case os_makedirs COMFYUI_LORA_DIR (files w1) of
                        Inl err \<Rightarrow> (Inl err, w1)
                      | Inr f2 \<Rightarrow>
                          (case shutil_move file_path dest_path f2 of
                             Inl err \<Rightarrow> (Inl err, w1\<lparr>files := f2\<rparr>)
                           | Inr f3 \<Rightarrow> (Inr filename, w1\<lparr>files := f3\<rparr>))))))"

definition download_from_civitai ::
    "(string \<Rightarrow> string) \<Rightarrow> env \<Rightarrow> string \<Rightarrow> world \<Rightarrow> (py_error + string) \<times> world" where
  "download_from_civitai unicode_lower e url w =
     (case get_civitai_filename unicode_lower url of
        Inl err \<Rightarrow> (Inl err, w)
      | Inr filename \<Rightarrow>
          (let dest_path = os_path_join COMFYUI_LORA_DIR filename
           in if os_path_exists (files w) dest_path then (Inr filename, w)
              else
                (case subprocess_run e [''pget'', ''-f'', url, dest_path] 600 w of
                   (Inl TimeoutExpired, w1) \<Rightarrow> (Inl DownloadTimeout, w1)
                 | (Inl err, w1) \<Rightarrow> (Inl err, w1)
                 | (Inr returncode, w1) \<Rightarrow>
                     if returncode \<noteq> 0 then (Inl DownloadFailed, w1)
                     else (Inr filename, w1))))"

definition download_from_replicate :: "env \<Rightarrow> string \<Rightarrow> world \<Rightarrow> (py_error + string) \<times> world" where
  "download_from_replicate e url w =
     (case get_replicate_filename url of
        Inl err \<Rightarrow> (Inl err, w)
      | Inr filename \<Rightarrow>
          (let dest_path = os_path_join COMFYUI_LORA_DIR filename;
               temp_tar_path = os_path_join HF_TEMP_DIR filename
           in if os_path_exists (files w) dest_path then (Inr filename, w)
              else
                (case subprocess_run e [''pget'', ''-f'', url, temp_tar_path] 600 w of
                   (Inl err, w1) \<Rightarrow> (Inl err, w1)
                 | (Inr returncode, w1) \<Rightarrow>
                     (case tarfile_open e temp_tar_path (files w1) of
                        Inl err \<Rightarrow> (Inl err, w1)
                      | Inr tar \<Rightarrow>
                          (case extractfile tar ''output/flux_train_replicate/lora.safetensors'' of
                             Inl err \<Rightarrow> (Inl err, w1)
                           | Inr None \<Rightarrow> (Inl ArchiveEntryMissing, w1)
                           | Inr (Some lora_bytes) \<Rightarrow>
                               (case os_makedirs COMFYUI_LORA_DIR (files w1) of
                                  Inl err \<Rightarrow> (Inl err, w1)
                                | Inr f2 \<Rightarrow>
                                    (case write_file dest_path lora_bytes f2 of
                                       Inl err \<Rightarrow> (Inl err, w1\<lparr>files := f2\<rparr>)
                                     | Inr f3 \<Rightarrow>
                                         (case os_unlink temp_tar_path f3 of
                                            Inl err \<Rightarrow> (Inl err, w1\<lparr>files := f3\<rparr>)
                                          | Inr f4 \<Rightarrow> (Inr filename, w1\<lparr>files := f4\<rparr>)))))))))"

definition download ::
    "(string \<Rightarrow> string) \<Rightarrow> env \<Rightarrow> string \<Rightarrow> world \<Rightarrow> (py_error + string) \<times> world" where
  "download unicode_lower e url w =
     (if startswith url ''https://huggingface.co'' then download_from_huggingface e url w
      else if startswith url ''https://civitai.com''
      then download_from_civitai unicode_lower e url w
      else if startswith url ''https://replicate.delivery'' then download_from_replicate e url w
      else (Inl UnsupportedSource, w))"

section \<open>\<open>predict.py\<close>: filling in the workflow\<close>

text \<open>
  The workflow is the value that \<open>json.loads\<close> returns: a dictionary from node ids to
  nodes, each node a dictionary with an \<open>inputs\<close> dictionary. Dictionaries keep their
  keys in insertion order; an assignment to a key replaces its value in place or adds
  the key at the end.
\<close>

datatype json =
  JNull
| JBool bool
| JInt int
| JFloat real
| JStr string
| JList "json list"
| JDict "(string \<times> json) list"

text \<open>The keyword arguments that \<open>predict\<close> passes to \<open>update_workflow\<close>.\<close>

record kwargs =
  prompt :: string
  negative_prompt :: string
  control_type :: string
  control_image_filename :: "string option"
  control_strength :: real
  guidance_scale :: real
  steps :: int
  soft_edge_preprocessor :: string
  depth_preprocessor :: string
  image_to_image_strength :: real
  return_preprocessed_image :: bool
  seed :: int

definition preprocessor_map :: "string \<Rightarrow> py_error + string" where
  "preprocessor_map preprocessor_label =
     (case map_of
        [(''Canny'', ''CannyEdgePreprocessor''),
         (''Midas'', ''MiDaS-DepthMapPreprocessor''),
         (''Zoe'', ''Zoe-DepthMapPreprocessor''),
         (''DepthAnything'', ''DepthAnythingPreprocessor''),
         (''Zoe-DepthAnything'', ''Zoe_DepthAnythingPreprocessor''),
         (''HED'', ''HEDPreprocessor''),
         (''TEED'', ''TEEDPreprocessor''),
         (''PiDiNet'', ''PiDiNetPreprocessor'')] preprocessor_label of
        None \<Rightarrow> Inl (KeyError preprocessor_label)
      | Some v \<Rightarrow> Inr v)"

definition control_weights_map :: "string \<Rightarrow> py_error + string" where
  "control_weights_map ct =
     (case map_of
        [(''canny'', ''flux-canny-controlnet-v3.safetensors''),
         (''soft_edge'', ''flux-hed-controlnet-v3.safetensors''),
         (''depth'', ''flux-depth-controlnet-v3.safetensors'')] ct of
        None \<Rightarrow> Inl (KeyError ct)
      | Some v \<Rightarrow> Inr v)"

text \<open>\<open>workflow[node_id]["inputs"]\<close>: the dictionary that the source then assigns into.\<close>

definition get_inputs :: "json \<Rightarrow> string \<Rightarrow> py_error + (string \<times> json) list" where
  "get_inputs workflow node_id =
     (case workflow of
        JDict nodes \<Rightarrow>
          (case map_of nodes node_id of
             None \<Rightarrow> Inl (KeyError node_id)
           | Some (JDict node) \<Rightarrow>
               (case map_of node ''inputs'' of
                  None \<Rightarrow> Inl (KeyError ''inputs'')
                | Some (JDict inputs) \<Rightarrow> Inr inputs
                | Some _ \<Rightarrow> Inl TypeError)
           | Some _ \<Rightarrow> Inl TypeError)
      | _ \<Rightarrow> Inl TypeError)"

text \<open>
  The workflow after the \<open>inputs\<close> dictionary of a node has been changed in place to
  \<open>inputs\<close>.
\<close>

definition put_inputs :: "json \<Rightarrow> string \<Rightarrow> (string \<times> json) list \<Rightarrow> json" where
  "put_inputs workflow node_id inputs =
     (case workflow of
        JDict nodes \<Rightarrow>
          (case map_of nodes node_id of
             Some (JDict node) \<Rightarrow>
               JDict (AList.update node_id
                        (JDict (AList.update ''inputs'' (JDict inputs) node)) nodes)
           | _ \<Rightarrow> workflow)
      | _ \<Rightarrow> workflow)"

text \<open>A run of assignments \<open>d[k] = v\<close>, first to last.\<close>

definition set_items :: "(string \<times> json) list \<Rightarrow> (string \<times> json) list \<Rightarrow> (string \<times> json) list" where
  "set_items d assignments = fold (\<lambda>kv. AList.update (fst kv) (snd kv)) assignments d"

definition json_of_optional :: "string option \<Rightarrow> json" where
  "json_of_optional s = (case s of None \<Rightarrow> JNull | Some x \<Rightarrow> JStr x)"

text \<open>
  \<open>update_workflow\<close> changes the workflow in place; the model returns the workflow
  after the last assignment, or the exception raised on the way.
\<close>

definition update_workflow :: "json \<Rightarrow> kwargs \<Rightarrow> py_error + json" where
  "update_workflow workflow kw =
     (case get_inputs workflow ''53'' of Inl e \<Rightarrow> Inl e | Inr positive_prompt \<Rightarrow>
      let wf1 = put_inputs workflow ''53''
                  (set_items positive_prompt
                     [(''clip_l'', JStr (prompt kw)),
                      (''t5xxl'', JStr (prompt kw)),
                      (''guidance'', JFloat (guidance_scale kw))]) in
      case get_inputs wf1 ''57'' of Inl e \<Rightarrow> Inl e | Inr negative_prompt_inputs \<Rightarrow>
      let wf2 = put_inputs wf1 ''57''
                  (set_items negative_prompt_inputs
                     [(''clip_l'', JStr (''nsfw, '' @ negative_prompt kw)),
                      (''t5xxl'', JStr (''nsfw, '' @ negative_prompt kw)),
                      (''guidance'', JFloat (guidance_scale kw))]) in
      case get_inputs wf2 ''16'' of Inl e \<Rightarrow> Inl e | Inr control_image \<Rightarrow>
      let wf3 = put_inputs wf2 ''16''
                  (set_items control_image
                     [(''image'', json_of_optional (control_image_filename kw))]) in
      case get_inputs wf3 ''14'' of Inl e \<Rightarrow> Inl e | Inr control_strength_inputs \<Rightarrow>
      let wf4 = put_inputs wf3 ''14''
                  (set_items control_strength_inputs
                     [(''strength'', JFloat (control_strength kw))]) in
      case get_inputs wf4 ''3'' of Inl e \<Rightarrow> Inl e | Inr sampler \<Rightarrow>
      let wf5 = put_inputs wf4 ''3''
                  (set_items sampler
                     [(''steps'', JInt (steps kw)),
                      (''noise_seed'', JInt (seed kw)),
                      (''seed'', JInt (seed kw)),
                      (''true_gs'', JFloat (guidance_scale kw)),
                      (''image_to_image_strength'', JFloat (image_to_image_strength kw))]) in
      case get_inputs wf5 ''13'' of Inl e \<Rightarrow> Inl e | Inr control_weights \<Rightarrow>
      case control_weights_map (control_type kw) of Inl e \<Rightarrow> Inl e | Inr weights \<Rightarrow>
      let wf6 = put_inputs wf5 ''13''
                  (set_items control_weights [(''controlnet_path'', JStr weights)]);
          preprop = (if control_type kw = ''depth'' then depth_preprocessor kw
                     else if control_type kw = ''soft_edge'' then soft_edge_preprocessor kw
                     else ''Canny'') in
      case get_inputs wf6 ''51'' of Inl e \<Rightarrow> Inl e | Inr preprocessor \<Rightarrow>
      case preprocessor_map preprop of Inl e \<Rightarrow> Inl e | Inr label \<Rightarrow>
      Inr (put_inputs wf6 ''51'' (set_items preprocessor [(''preprocessor'', JStr label)])))"

text \<open>Reading \<open>workflow[node_id]["inputs"][field]\<close>.\<close>

definition input_value :: "json \<Rightarrow> string \<Rightarrow> string \<Rightarrow> py_error + json" where
  "input_value workflow node_id field =
     (case get_inputs workflow node_id of
        Inl e \<Rightarrow> Inl e
      | Inr inputs \<Rightarrow>
          (case map_of inputs field of
             None \<Rightarrow> Inl (KeyError field)
           | Some v \<Rightarrow> Inr v))"

section \<open>Scenarios\<close>

text \<open>
  Collaborators and worlds at which the functions are evaluated below.
  \<open>sample_unicode_lower\<close> stands for the Unicode tables of \<open>str.lower\<close>: it is right on
  the one string outside ASCII that is put in lower case below, the capital letter E
  with an acute accent (bytes C3 89), which becomes the small one (bytes C3 A9); an ASCII string never reaches
  the tables. With \<open>offline_env\<close> every command exits with status 1 and changes nothing,
  the hub client fails and no bytes are an archive.
\<close>

definition sample_unicode_lower :: "string \<Rightarrow> string" where
  "sample_unicode_lower s =
     (if s = [char_of (195::nat), char_of (137::nat)] then [char_of (195::nat), char_of (169::nat)]
      else s)"

definition offline_env :: env where
  "offline_env =
     \<lparr> run_command = (\<lambda>args t f. (Exited 1, f)),
       hub_client = (\<lambda>repo_id revision filename local_dir f. (Inl (HubError ''offline''), f)),
       tar_members = (\<lambda>bytes. None) \<rparr>"

text \<open>Every command runs into its timeout and leaves nothing behind.\<close>

definition timeout_env :: env where
  "timeout_env = offline_env \<lparr> run_command := (\<lambda>args t f. (TimedOut, f)) \<rparr>"

text \<open>
  Every command runs into its timeout after it has written part of its last
  argument, the path that \<open>pget\<close> downloads to.
\<close>

definition partial_timeout_env :: env where
  "partial_timeout_env =
     offline_env \<lparr> run_command := (\<lambda>args t f. (TimedOut, f(last args \<mapsto> File ''partial''))) \<rparr>"

text \<open>
  Every command succeeds and writes its last argument; whatever was written is an
  archive with no members.
\<close>

definition entryless_tar_env :: env where
  "entryless_tar_env =
     offline_env \<lparr> run_command := (\<lambda>args t f. (Exited 0, f(last args \<mapsto> File ''tar''))),
                   tar_members := (\<lambda>bytes. Some Map.empty) \<rparr>"

definition empty_world :: world where
  "empty_world = \<lparr> files = Map.empty, trace = [] \<rparr>"

text \<open>A world in which \<open>filename\<close> is already in the destination directory.\<close>

definition cached_world :: "string \<Rightarrow> world" where
  "cached_world filename =
     \<lparr> files = [os_path_join COMFYUI_LORA_DIR filename \<mapsto> File ''cached''], trace = [] \<rparr>"

text \<open>A workflow with the seven nodes that \<open>update_workflow\<close> writes to, and a request.\<close>

definition sample_workflow :: json where
  "sample_workflow =
     JDict (map (\<lambda>node_id. (node_id, JDict [(''class_type'', JStr ''Node''),
                                               (''inputs'', JDict [(''guidance'', JFloat 1)])]))
              [''3'', ''13'', ''14'', ''16'', ''51'', ''53'', ''57''])"

definition sample_kwargs :: kwargs where
  "sample_kwargs =
     \<lparr> prompt = ''a cat'', negative_prompt = ''blurry'', control_type = ''depth'',
       control_image_filename = Some ''control_image.png'', control_strength = 1 / 2,
       guidance_scale = 7 / 2, steps = 28, soft_edge_preprocessor = ''HED'',
       depth_preprocessor = ''DepthAnything'', image_to_image_strength = 0,
       return_preprocessed_image = False, seed = 42 \<rparr>"

section \<open>Properties of \<open>download_external_lora.py\<close>\<close>

subsection \<open>Dispatch\<close>

lemma startswith_append: "startswith s p \<Longrightarrow> s = p @ drop (length p) s"
  unfolding startswith_def by (metis append_take_drop_id)

lemma prefixes_exclusive:
  "\<not> (startswith url ''https://huggingface.co'' \<and> startswith url ''https://civitai.com'')"
  "\<not> (startswith url ''https://huggingface.co'' \<and> startswith url ''https://replicate.delivery'')"
  "\<not> (startswith url ''https://civitai.com'' \<and> startswith url ''https://replicate.delivery'')"
proof -
  have k: "\<And>p q. startswith url p \<Longrightarrow> startswith url q \<Longrightarrow> take 9 p = take 9 q \<or> length p < 9 \<or> length q < 9"
  proof -
    fix p q assume "startswith url p" "startswith url q"
    then have "take (length p) url = p" "take (length q) url = q" by (simp_all add: startswith_def)
    then have "take 9 p = take 9 (take (length p) url)" "take 9 q = take 9 (take (length q) url)" by simp_all
    then show "take 9 p = take 9 q \<or> length p < 9 \<or> length q < 9"
      by (simp add: min_def split: if_splits)
  qed
  show "\<not> (startswith url ''https://huggingface.co'' \<and> startswith url ''https://civitai.com'')"
    using k[of "''https://huggingface.co''" "''https://civitai.com''"] by auto
  show "\<not> (startswith url ''https://huggingface.co'' \<and> startswith url ''https://replicate.delivery'')"
    using k[of "''https://huggingface.co''" "''https://replicate.delivery''"] by auto
  show "\<not> (startswith url ''https://civitai.com'' \<and> startswith url ''https://replicate.delivery'')"
    using k[of "''https://civitai.com''" "''https://replicate.delivery''"] by auto
qed

text \<open>
  C1. \<open>download\<close> looks at the start of the URL only. A URL that starts with one of
  the three host prefixes goes to that provider's function and to no other, since no
  URL starts with two of the prefixes; the order of the tests therefore never decides.
  A URL that starts with none of them raises \<open>UnsupportedSource\<close> and leaves the world
  as it was: no file is touched and no call leaves the process.
\<close>

theorem download_dispatch:
  "(startswith url ''https://huggingface.co'' \<longrightarrow>
      download unicode_lower e url w = download_from_huggingface e url w)
   \<and> (startswith url ''https://civitai.com'' \<longrightarrow>
      download unicode_lower e url w = download_from_civitai unicode_lower e url w)
   \<and> (startswith url ''https://replicate.delivery'' \<longrightarrow>
      download unicode_lower e url w = download_from_replicate e url w)
   \<and> \<not> (startswith url ''https://huggingface.co'' \<and> startswith url ''https://civitai.com'')
   \<and> \<not> (startswith url ''https://huggingface.co'' \<and> startswith url ''https://replicate.delivery'')
   \<and> \<not> (startswith url ''https://civitai.com'' \<and> startswith url ''https://replicate.delivery'')
   \<and> (\<not> startswith url ''https://huggingface.co'' \<and> \<not> startswith url ''https://civitai.com''
        \<and> \<not> startswith url ''https://replicate.delivery'' \<longrightarrow>
      download unicode_lower e url w = (Inl UnsupportedSource, w))"
  using prefixes_exclusive[of url] by (simp add: download_def)

theorem download_dispatch_witness:
  "startswith ''https://huggingface.co/org/model/resolve/main/sub/weights.safetensors'' ''https://huggingface.co''
   \<and> download sample_unicode_lower offline_env ''https://huggingface.co/org/model/resolve/main/sub/weights.safetensors'' empty_world
       = download_from_huggingface offline_env ''https://huggingface.co/org/model/resolve/main/sub/weights.safetensors'' empty_world
   \<and> startswith ''https://civitai.com/api/download/models/12345?type=Model&format=SafeTensor'' ''https://civitai.com''
   \<and> download sample_unicode_lower offline_env ''https://civitai.com/api/download/models/12345?type=Model&format=SafeTensor'' empty_world
       = download_from_civitai sample_unicode_lower offline_env ''https://civitai.com/api/download/models/12345?type=Model&format=SafeTensor'' empty_world
   \<and> startswith ''https://replicate.delivery/pbxt/abcdef123/trained_model.tar'' ''https://replicate.delivery''
   \<and> download sample_unicode_lower offline_env ''https://replicate.delivery/pbxt/abcdef123/trained_model.tar'' empty_world
       = download_from_replicate offline_env ''https://replicate.delivery/pbxt/abcdef123/trained_model.tar'' empty_world
   \<and> \<not> startswith ''https://example.com/lora.safetensors'' ''https://huggingface.co''
   \<and> \<not> startswith ''https://example.com/lora.safetensors'' ''https://civitai.com''
   \<and> \<not> startswith ''https://example.com/lora.safetensors'' ''https://replicate.delivery''
   \<and> download sample_unicode_lower offline_env ''https://example.com/lora.safetensors'' empty_world
       = (Inl UnsupportedSource, empty_world)"
proof -
  have h1: "startswith ''https://huggingface.co/org/model/resolve/main/sub/weights.safetensors'' ''https://huggingface.co''"
    by (simp add: startswith_def)
  have h2: "startswith ''https://civitai.com/api/download/models/12345?type=Model&format=SafeTensor'' ''https://civitai.com''"
    by (simp add: startswith_def)
  have h3: "startswith ''https://replicate.delivery/pbxt/abcdef123/trained_model.tar'' ''https://replicate.delivery''"
    by (simp add: startswith_def)
  have h4: "\<not> startswith ''https://example.com/lora.safetensors'' ''https://huggingface.co''"
     "\<not> startswith ''https://example.com/lora.safetensors'' ''https://civitai.com''"
     "\<not> startswith ''https://example.com/lora.safetensors'' ''https://replicate.delivery''"
    by (simp_all add: startswith_def)
  have d1: "download sample_unicode_lower offline_env ''https://huggingface.co/org/model/resolve/main/sub/weights.safetensors'' empty_world
       = download_from_huggingface offline_env ''https://huggingface.co/org/model/resolve/main/sub/weights.safetensors'' empty_world"
    by (rule download_dispatch[where url = "''https://huggingface.co/org/model/resolve/main/sub/weights.safetensors''" and e = offline_env and w = empty_world
           and unicode_lower = sample_unicode_lower,
           THEN conjunct1, THEN mp, OF h1])
  have d2: "download sample_unicode_lower offline_env ''https://civitai.com/api/download/models/12345?type=Model&format=SafeTensor'' empty_world
       = download_from_civitai sample_unicode_lower offline_env ''https://civitai.com/api/download/models/12345?type=Model&format=SafeTensor'' empty_world"
    by (rule download_dispatch[where url = "''https://civitai.com/api/download/models/12345?type=Model&format=SafeTensor''" and e = offline_env and w = empty_world
           and unicode_lower = sample_unicode_lower,
           THEN conjunct2, THEN conjunct1, THEN mp, OF h2])
  have d3: "download sample_unicode_lower offline_env ''https://replicate.delivery/pbxt/abcdef123/trained_model.tar'' empty_world
       = download_from_replicate offline_env ''https://replicate.delivery/pbxt/abcdef123/trained_model.tar'' empty_world"
    by (rule download_dispatch[where url = "''https://replicate.delivery/pbxt/abcdef123/trained_model.tar''" and e = offline_env and w = empty_world
           and unicode_lower = sample_unicode_lower,
           THEN conjunct2, THEN conjunct2, THEN conjunct1, THEN mp, OF h3])
  have h5: "\<not> startswith ''https://example.com/lora.safetensors'' ''https://huggingface.co''
      \<and> \<not> startswith ''https://example.com/lora.safetensors'' ''https://civitai.com''
      \<and> \<not> startswith ''https://example.com/lora.safetensors'' ''https://replicate.delivery''"
    by (intro conjI h4)
  have d4: "download sample_unicode_lower offline_env ''https://example.com/lora.safetensors'' empty_world = (Inl UnsupportedSource, empty_world)"
    by (rule download_dispatch[where url = "''https://example.com/lora.safetensors''" and e = offline_env and w = empty_world
           and unicode_lower = sample_unicode_lower,
           THEN conjunct2, THEN conjunct2, THEN conjunct2, THEN conjunct2, THEN conjunct2,
           THEN conjunct2, THEN mp, OF h5])
  show ?thesis
    by (intro conjI h1 h2 h3 h4 d1 d2 d3 d4)
qed

subsection \<open>The cache\<close>

text \<open>
  A provider function that returns a file name returns the name derived from the URL;
  neither the world nor the collaborators have a say in it.
\<close>

lemma huggingface_success:
  "download_from_huggingface e url w = (Inr f, w') \<Longrightarrow>
   \<exists>repo_id revision remote original.
     extract_parts_from_huggingface_url url = Inr (repo_id, revision, remote, original)
     \<and> f = replace_char CHR ''/'' CHR ''_'' repo_id @ ''_'' @ original"
  unfolding download_from_huggingface_def
  by (auto simp: Let_def split: sum.splits prod.splits if_splits)

lemma civitai_success:
  "download_from_civitai unicode_lower e url w = (Inr f, w') \<Longrightarrow> get_civitai_filename unicode_lower url = Inr f"
  unfolding download_from_civitai_def
  by (auto simp: Let_def split: sum.splits prod.splits if_splits py_error.splits)

lemma replicate_success:
  "download_from_replicate e url w = (Inr f, w') \<Longrightarrow> get_replicate_filename url = Inr f"
  unfolding download_from_replicate_def
  by (auto simp: Let_def split: sum.splits prod.splits if_splits option.splits)

lemma download_deterministic:
  assumes "download unicode_lower e url w = (Inr f, w')" and "download unicode_lower e' url v = (Inr f', v')"
  shows "f = f'"
proof -
  consider (hf) "startswith url ''https://huggingface.co''"
    | (civ) "\<not> startswith url ''https://huggingface.co''" "startswith url ''https://civitai.com''"
    | (rep) "\<not> startswith url ''https://huggingface.co''" "\<not> startswith url ''https://civitai.com''"
            "startswith url ''https://replicate.delivery''"
    | (none) "\<not> startswith url ''https://huggingface.co''" "\<not> startswith url ''https://civitai.com''"
            "\<not> startswith url ''https://replicate.delivery''"
    by blast
  then show ?thesis
  proof cases
    case hf
    with assms have "download_from_huggingface e url w = (Inr f, w')"
      "download_from_huggingface e' url v = (Inr f', v')" by (simp_all add: download_def)
    from huggingface_success[OF this(1)] huggingface_success[OF this(2)] show ?thesis by auto
  next
    case civ
    with assms have "download_from_civitai unicode_lower e url w = (Inr f, w')"
      "download_from_civitai unicode_lower e' url v = (Inr f', v')" by (simp_all add: download_def)
    from civitai_success[OF this(1)] civitai_success[OF this(2)] show ?thesis by simp
  next
    case rep
    with assms have "download_from_replicate e url w = (Inr f, w')"
      "download_from_replicate e' url v = (Inr f', v')" by (simp_all add: download_def)
    from replicate_success[OF this(1)] replicate_success[OF this(2)] show ?thesis by simp
  next
    case none
    with assms show ?thesis by (simp add: download_def)
  qed
qed

lemma cached_world_exists:
  "os_path_exists (files (cached_world filename)) (os_path_join COMFYUI_LORA_DIR filename)"
  by (simp add: cached_world_def os_path_exists_def)

text \<open>
  C2. On each of the three provider paths, when the file name derived from the URL is
  already in the destination directory, \<open>download\<close> returns that name and the world is
  the one it started from: the trace of calls that leave the process has not grown, so
  neither the hub client nor a subprocess ran. The name is a function of the URL
  alone: two calls on the same URL that return a name return the same one, whatever
  the collaborators and the worlds.
\<close>

theorem cache_hit_short_circuit:
  "(startswith url ''https://huggingface.co''
      \<and> extract_parts_from_huggingface_url url = Inr (repo_id, revision, remote, original)
      \<and> os_path_exists (files w)
          (os_path_join COMFYUI_LORA_DIR
             (replace_char CHR ''/'' CHR ''_'' repo_id @ ''_'' @ original)) \<longrightarrow>
    download unicode_lower e url w = (Inr (replace_char CHR ''/'' CHR ''_'' repo_id @ ''_'' @ original), w))
   \<and> (startswith url ''https://civitai.com''
      \<and> get_civitai_filename unicode_lower url = Inr filename
      \<and> os_path_exists (files w) (os_path_join COMFYUI_LORA_DIR filename) \<longrightarrow>
    download unicode_lower e url w = (Inr filename, w))
   \<and> (startswith url ''https://replicate.delivery''
      \<and> get_replicate_filename url = Inr filename
      \<and> os_path_exists (files w) (os_path_join COMFYUI_LORA_DIR filename) \<longrightarrow>
    download unicode_lower e url w = (Inr filename, w))
   \<and> (download unicode_lower e url w = (Inr f, w') \<and> download unicode_lower e' url v = (Inr f', v') \<longrightarrow> f = f')"
proof (intro conjI impI)
  assume "startswith url ''https://huggingface.co''
      \<and> extract_parts_from_huggingface_url url = Inr (repo_id, revision, remote, original)
      \<and> os_path_exists (files w)
          (os_path_join COMFYUI_LORA_DIR
             (replace_char CHR ''/'' CHR ''_'' repo_id @ ''_'' @ original))"
  then show "download unicode_lower e url w = (Inr (replace_char CHR ''/'' CHR ''_'' repo_id @ ''_'' @ original), w)"
    by (simp add: download_def download_from_huggingface_def)
next
  assume a: "startswith url ''https://civitai.com''
      \<and> get_civitai_filename unicode_lower url = Inr filename
      \<and> os_path_exists (files w) (os_path_join COMFYUI_LORA_DIR filename)"
  with prefixes_exclusive(1)[of url] show "download unicode_lower e url w = (Inr filename, w)"
    by (auto simp add: download_def download_from_civitai_def)
next
  assume a: "startswith url ''https://replicate.delivery''
      \<and> get_replicate_filename url = Inr filename
      \<and> os_path_exists (files w) (os_path_join COMFYUI_LORA_DIR filename)"
  with prefixes_exclusive(2,3)[of url] show "download unicode_lower e url w = (Inr filename, w)"
    by (auto simp add: download_def download_from_replicate_def)
next
  assume "download unicode_lower e url w = (Inr f, w') \<and> download unicode_lower e' url v = (Inr f', v')"
  then show "f = f'" using download_deterministic by blast
qed

theorem cache_hit_short_circuit_witness:
  "startswith ''https://huggingface.co/org/model/resolve/main/sub/weights.safetensors'' ''https://huggingface.co''
   \<and> extract_parts_from_huggingface_url ''https://huggingface.co/org/model/resolve/main/sub/weights.safetensors''
       = Inr (''org/model'', ''main'', [''sub'', ''weights.safetensors''], ''weights.safetensors'')
   \<and> os_path_exists (files (cached_world ''org_model_weights.safetensors''))
       (os_path_join COMFYUI_LORA_DIR ''org_model_weights.safetensors'')
   \<and> download sample_unicode_lower offline_env ''https://huggingface.co/org/model/resolve/main/sub/weights.safetensors''
        (cached_world ''org_model_weights.safetensors'')
       = (Inr ''org_model_weights.safetensors'', cached_world ''org_model_weights.safetensors'')
   \<and> startswith ''https://civitai.com/api/download/models/12345?type=Model&format=SafeTensor'' ''https://civitai.com''
   \<and> get_civitai_filename sample_unicode_lower ''https://civitai.com/api/download/models/12345?type=Model&format=SafeTensor''
       = Inr ''civitai_12345_model_safetensor.safetensors''
   \<and> os_path_exists (files (cached_world ''civitai_12345_model_safetensor.safetensors''))
       (os_path_join COMFYUI_LORA_DIR ''civitai_12345_model_safetensor.safetensors'')
   \<and> download sample_unicode_lower offline_env ''https://civitai.com/api/download/models/12345?type=Model&format=SafeTensor''
        (cached_world ''civitai_12345_model_safetensor.safetensors'')
       = (Inr ''civitai_12345_model_safetensor.safetensors'',
          cached_world ''civitai_12345_model_safetensor.safetensors'')
   \<and> startswith ''https://replicate.delivery/pbxt/abcdef123/trained_model.tar'' ''https://replicate.delivery''
   \<and> get_replicate_filename ''https://replicate.delivery/pbxt/abcdef123/trained_model.tar''
       = Inr ''replicate_lora_abcdef123.safetensors''
   \<and> os_path_exists (files (cached_world ''replicate_lora_abcdef123.safetensors''))
       (os_path_join COMFYUI_LORA_DIR ''replicate_lora_abcdef123.safetensors'')
   \<and> download sample_unicode_lower offline_env ''https://replicate.delivery/pbxt/abcdef123/trained_model.tar''
        (cached_world ''replicate_lora_abcdef123.safetensors'')
       = (Inr ''replicate_lora_abcdef123.safetensors'', cached_world ''replicate_lora_abcdef123.safetensors'')
   \<and> download sample_unicode_lower timeout_env ''https://replicate.delivery/pbxt/abcdef123/trained_model.tar''
        (cached_world ''replicate_lora_abcdef123.safetensors'')
       = (Inr ''replicate_lora_abcdef123.safetensors'', cached_world ''replicate_lora_abcdef123.safetensors'')"
proof -
  have h1: "startswith ''https://huggingface.co/org/model/resolve/main/sub/weights.safetensors'' ''https://huggingface.co''"
    by (simp add: startswith_def)
  have h2: "extract_parts_from_huggingface_url ''https://huggingface.co/org/model/resolve/main/sub/weights.safetensors''
       = Inr (''org/model'', ''main'', [''sub'', ''weights.safetensors''], ''weights.safetensors'')"
    by code_simp
  have n1: "replace_char CHR ''/'' CHR ''_'' ''org/model'' @ ''_'' @ ''weights.safetensors''
       = ''org_model_weights.safetensors''"
    by (simp add: replace_char_def)
  have c1: "startswith ''https://civitai.com/api/download/models/12345?type=Model&format=SafeTensor'' ''https://civitai.com''"
    by (simp add: startswith_def)
  have c2: "get_civitai_filename sample_unicode_lower ''https://civitai.com/api/download/models/12345?type=Model&format=SafeTensor''
       = Inr ''civitai_12345_model_safetensor.safetensors''"
    by code_simp
  have r1: "startswith ''https://replicate.delivery/pbxt/abcdef123/trained_model.tar'' ''https://replicate.delivery''"
    by (simp add: startswith_def)
  have r2: "get_replicate_filename ''https://replicate.delivery/pbxt/abcdef123/trained_model.tar''
       = Inr ''replicate_lora_abcdef123.safetensors''"
    by code_simp
  note ex = cached_world_exists
  have d1: "download sample_unicode_lower offline_env ''https://huggingface.co/org/model/resolve/main/sub/weights.safetensors''
        (cached_world ''org_model_weights.safetensors'')
       = (Inr ''org_model_weights.safetensors'', cached_world ''org_model_weights.safetensors'')"
    using cache_hit_short_circuit[where url = "''https://huggingface.co/org/model/resolve/main/sub/weights.safetensors''"
        and repo_id = "''org/model''" and revision = "''main''"
        and remote = "[''sub'', ''weights.safetensors'']" and original = "''weights.safetensors''"
        and w = "cached_world ''org_model_weights.safetensors''" and e = offline_env
        and unicode_lower = sample_unicode_lower]
      h1 h2 ex[of "''org_model_weights.safetensors''"] by (simp only: n1)
  have d2: "download sample_unicode_lower offline_env ''https://civitai.com/api/download/models/12345?type=Model&format=SafeTensor''
        (cached_world ''civitai_12345_model_safetensor.safetensors'')
       = (Inr ''civitai_12345_model_safetensor.safetensors'',
          cached_world ''civitai_12345_model_safetensor.safetensors'')"
    using cache_hit_short_circuit[where url = "''https://civitai.com/api/download/models/12345?type=Model&format=SafeTensor''"
        and filename = "''civitai_12345_model_safetensor.safetensors''"
        and w = "cached_world ''civitai_12345_model_safetensor.safetensors''" and e = offline_env
        and unicode_lower = sample_unicode_lower]
      c1 c2 ex[of "''civitai_12345_model_safetensor.safetensors''"] by blast
  have d3: "download sample_unicode_lower en ''https://replicate.delivery/pbxt/abcdef123/trained_model.tar''
        (cached_world ''replicate_lora_abcdef123.safetensors'')
       = (Inr ''replicate_lora_abcdef123.safetensors'', cached_world ''replicate_lora_abcdef123.safetensors'')" for en
    using cache_hit_short_circuit[where url = "''https://replicate.delivery/pbxt/abcdef123/trained_model.tar''"
        and filename = "''replicate_lora_abcdef123.safetensors''"
        and w = "cached_world ''replicate_lora_abcdef123.safetensors''" and e = en
        and unicode_lower = sample_unicode_lower]
      r1 r2 ex[of "''replicate_lora_abcdef123.safetensors''"] by blast
  show ?thesis
    using h1 h2 c1 c2 r1 r2 ex d1 d2 d3 by simp
qed

subsection \<open>Failures of the fetch\<close>

text \<open>
  C7. \<open>download_from_replicate\<close> does not look at the return code of \<open>pget\<close> and does
  not catch the timeout, unlike \<open>download_from_civitai\<close>. When \<open>pget\<close> exits with status 1
  and has written nothing, the function goes on to open the archive and raises
  \<open>FileNotFoundError\<close> for the temporary path, not \<open>DownloadFailed\<close>; when \<open>pget\<close> runs
  into the timeout, \<open>TimeoutExpired\<close> itself leaves the function, not \<open>DownloadTimeout\<close>.
\<close>

theorem replicate_fetch_failure_unchecked:
  "fst (download_from_replicate offline_env
          ''https://replicate.delivery/pbxt/abcdef123/trained_model.tar'' empty_world)
     = Inl (FileNotFoundError ''TEMP_HF/replicate_lora_abcdef123.safetensors'')
   \<and> trace (snd (download_from_replicate offline_env
          ''https://replicate.delivery/pbxt/abcdef123/trained_model.tar'' empty_world))
     = [SubprocessRun [''pget'', ''-f'', ''https://replicate.delivery/pbxt/abcdef123/trained_model.tar'',
                        ''TEMP_HF/replicate_lora_abcdef123.safetensors''] 600]
   \<and> fst (download_from_replicate timeout_env
          ''https://replicate.delivery/pbxt/abcdef123/trained_model.tar'' empty_world)
     = Inl TimeoutExpired
   \<and> Inl (FileNotFoundError ''TEMP_HF/replicate_lora_abcdef123.safetensors'') \<noteq> (Inl DownloadFailed :: py_error + string)
   \<and> Inl TimeoutExpired \<noteq> (Inl DownloadTimeout :: py_error + string)"
  by code_simp

text \<open>
  C8. When the downloaded archive has no member
  \<open>output/flux_train_replicate/lora.safetensors\<close>, \<open>extractfile\<close> raises \<open>KeyError\<close>
  before the test for \<open>None\<close> is reached, so the error is not
  \<open>ArchiveEntryMissing\<close>. Nothing is written at the destination path.
\<close>

theorem replicate_missing_entry_key_error:
  "fst (download_from_replicate entryless_tar_env
          ''https://replicate.delivery/pbxt/abcdef123/trained_model.tar'' empty_world)
     = Inl (KeyError ''output/flux_train_replicate/lora.safetensors'')
   \<and> Inl (KeyError ''output/flux_train_replicate/lora.safetensors'') \<noteq> (Inl ArchiveEntryMissing :: py_error + string)
   \<and> files (snd (download_from_replicate entryless_tar_env
          ''https://replicate.delivery/pbxt/abcdef123/trained_model.tar'' empty_world))
       ''ComfyUI/models/loras/replicate_lora_abcdef123.safetensors'' = None"
  by code_simp

text \<open>
  \<open>download_from_civitai\<close> removes nothing after a failed fetch: with a \<open>pget\<close> that has
  written part of the destination file when the timeout strikes, the destination file
  is there afterwards.
\<close>

theorem civitai_partial_file_counterexample:
  "get_civitai_filename sample_unicode_lower ''https://civitai.com/api/download/models/12345?type=Model&format=SafeTensor''
     = Inr ''civitai_12345_model_safetensor.safetensors''
   \<and> \<not> os_path_exists (files empty_world) ''ComfyUI/models/loras/civitai_12345_model_safetensor.safetensors''
   \<and> fst (download_from_civitai sample_unicode_lower partial_timeout_env
          ''https://civitai.com/api/download/models/12345?type=Model&format=SafeTensor'' empty_world)
     = Inl DownloadTimeout
   \<and> os_path_exists (files (snd (download_from_civitai sample_unicode_lower partial_timeout_env
          ''https://civitai.com/api/download/models/12345?type=Model&format=SafeTensor'' empty_world)))
       ''ComfyUI/models/loras/civitai_12345_model_safetensor.safetensors''"
  by code_simp

text \<open>
  C9, amended. For a Civitai URL whose file name is not in the destination directory,
  a \<open>pget\<close> that exits with a status other than zero raises \<open>DownloadFailed\<close> and one that
  exceeds the timeout of 600 seconds raises \<open>DownloadTimeout\<close>; in both cases the files
  afterwards are exactly those \<open>pget\<close> left, and the one call recorded is that \<open>pget\<close>.
\<close>

theorem civitai_fetch_failure:
  assumes "get_civitai_filename unicode_lower url = Inr filename"
    and "\<not> os_path_exists (files w) (os_path_join COMFYUI_LORA_DIR filename)"
    and "run_command e [''pget'', ''-f'', url, os_path_join COMFYUI_LORA_DIR filename] 600 (files w)
           = (outcome, left)"
  shows "(outcome = TimedOut \<longrightarrow>
            download_from_civitai unicode_lower e url w =
              (Inl DownloadTimeout,
               \<lparr> files = left,
                 trace = trace w @ [SubprocessRun [''pget'', ''-f'', url,
                                      os_path_join COMFYUI_LORA_DIR filename] 600] \<rparr>))
       \<and> (\<forall>rc. outcome = Exited rc \<and> rc \<noteq> 0 \<longrightarrow>
            download_from_civitai unicode_lower e url w =
              (Inl DownloadFailed,
               \<lparr> files = left,
                 trace = trace w @ [SubprocessRun [''pget'', ''-f'', url,
                                      os_path_join COMFYUI_LORA_DIR filename] 600] \<rparr>))"
  using assms
  by (auto simp: download_from_civitai_def subprocess_run_def Let_def)

theorem civitai_fetch_failure_witness:
  "get_civitai_filename sample_unicode_lower ''https://civitai.com/api/download/models/12345?type=Model&format=SafeTensor''
     = Inr ''civitai_12345_model_safetensor.safetensors''
   \<and> \<not> os_path_exists (files empty_world)
         (os_path_join COMFYUI_LORA_DIR ''civitai_12345_model_safetensor.safetensors'')
   \<and> run_command offline_env
         [''pget'', ''-f'', ''https://civitai.com/api/download/models/12345?type=Model&format=SafeTensor'',
          os_path_join COMFYUI_LORA_DIR ''civitai_12345_model_safetensor.safetensors''] 600 (files empty_world)
       = (Exited 1, Map.empty)
   \<and> download_from_civitai sample_unicode_lower offline_env
         ''https://civitai.com/api/download/models/12345?type=Model&format=SafeTensor'' empty_world
       = (Inl DownloadFailed,
          \<lparr> files = Map.empty,
            trace = trace empty_world @
              [SubprocessRun [''pget'', ''-f'',
                 ''https://civitai.com/api/download/models/12345?type=Model&format=SafeTensor'',
                 os_path_join COMFYUI_LORA_DIR ''civitai_12345_model_safetensor.safetensors''] 600] \<rparr>)
   \<and> run_command timeout_env
         [''pget'', ''-f'', ''https://civitai.com/api/download/models/12345?type=Model&format=SafeTensor'',
          os_path_join COMFYUI_LORA_DIR ''civitai_12345_model_safetensor.safetensors''] 600 (files empty_world)
       = (TimedOut, Map.empty)
   \<and> download_from_civitai sample_unicode_lower timeout_env
         ''https://civitai.com/api/download/models/12345?type=Model&format=SafeTensor'' empty_world
       = (Inl DownloadTimeout,
          \<lparr> files = Map.empty,
            trace = trace empty_world @
              [SubprocessRun [''pget'', ''-f'',
                 ''https://civitai.com/api/download/models/12345?type=Model&format=SafeTensor'',
                 os_path_join COMFYUI_LORA_DIR ''civitai_12345_model_safetensor.safetensors''] 600] \<rparr>)"
proof -
  have a1: "get_civitai_filename sample_unicode_lower ''https://civitai.com/api/download/models/12345?type=Model&format=SafeTensor''
     = Inr ''civitai_12345_model_safetensor.safetensors''"
    by code_simp
  have a2: "\<not> os_path_exists (files empty_world)
         (os_path_join COMFYUI_LORA_DIR ''civitai_12345_model_safetensor.safetensors'')"
    by (simp add: os_path_exists_def empty_world_def)
  have a3: "run_command offline_env
         [''pget'', ''-f'', ''https://civitai.com/api/download/models/12345?type=Model&format=SafeTensor'',
          os_path_join COMFYUI_LORA_DIR ''civitai_12345_model_safetensor.safetensors''] 600 (files empty_world)
       = (Exited 1, Map.empty)"
    by (simp add: offline_env_def empty_world_def)
  have a4: "run_command timeout_env
         [''pget'', ''-f'', ''https://civitai.com/api/download/models/12345?type=Model&format=SafeTensor'',
          os_path_join COMFYUI_LORA_DIR ''civitai_12345_model_safetensor.safetensors''] 600 (files empty_world)
       = (TimedOut, Map.empty)"
    by (simp add: timeout_env_def offline_env_def empty_world_def)
  have b1: "download_from_civitai sample_unicode_lower offline_env
         ''https://civitai.com/api/download/models/12345?type=Model&format=SafeTensor'' empty_world
       = (Inl DownloadFailed,
          \<lparr> files = Map.empty,
            trace = trace empty_world @
              [SubprocessRun [''pget'', ''-f'',
                 ''https://civitai.com/api/download/models/12345?type=Model&format=SafeTensor'',
                 os_path_join COMFYUI_LORA_DIR ''civitai_12345_model_safetensor.safetensors''] 600] \<rparr>)"
    using civitai_fetch_failure[OF a1 a2 a3, THEN conjunct2, THEN spec, where x = 1] by simp
  have b2: "download_from_civitai sample_unicode_lower timeout_env
         ''https://civitai.com/api/download/models/12345?type=Model&format=SafeTensor'' empty_world
       = (Inl DownloadTimeout,
          \<lparr> files = Map.empty,
            trace = trace empty_world @
              [SubprocessRun [''pget'', ''-f'',
                 ''https://civitai.com/api/download/models/12345?type=Model&format=SafeTensor'',
                 os_path_join COMFYUI_LORA_DIR ''civitai_12345_model_safetensor.safetensors''] 600] \<rparr>)"
    using civitai_fetch_failure[OF a1 a2 a4, THEN conjunct1] by simp
  show ?thesis
    by (intro conjI a1 a2 a3 a4 b1 b2)
qed

subsection \<open>File names\<close>

text \<open>Facts about splitting and indexing that the three derivations share.\<close>

lemma split_str_not_Nil: "split_str sep s \<noteq> []"
  by (induction s) (auto split: list.splits)

lemma length_split_str: "length (split_str sep s) = Suc (length (filter (\<lambda>c. c = sep) s))"
  by (induction s) (auto split: list.splits simp: split_str_not_Nil)

lemma py_index_last: "xs \<noteq> [] \<Longrightarrow> py_index xs (- 1) = Inr (last xs)"
  by (cases xs rule: rev_cases) (auto simp: py_index_def nth_append)

text \<open>
  C3. For a URL whose path is a slash followed by at least five segments,
  \<open>extract_parts_from_huggingface_url\<close> returns the first two segments joined by a slash
  as the repository id, the fourth segment as the revision, the segments from the
  fifth on as the remote path and the last segment as the original file name. The
  file name that \<open>download_from_huggingface\<close> derives is the repository id with every
  slash turned into an underscore, then an underscore and the original file name:
  this is the name returned on a cache hit and on every other successful return, and
  when the file is not cached the hub client is called once, with the repository id,
  the revision and the remote path joined by slashes.
\<close>

theorem huggingface_parts:
  assumes "urlparse url = Inr pr"
    and "path pr = CHR ''/'' # rest"
    and "segs = split_str CHR ''/'' rest"
    and "5 \<le> length segs"
    and "repo_id = segs ! 0 @ ''/'' @ segs ! 1"
    and "filename = replace_char CHR ''/'' CHR ''_'' repo_id @ ''_'' @ last segs"
  shows "extract_parts_from_huggingface_url url = Inr (repo_id, segs ! 3, drop 4 segs, last segs)
       \<and> (os_path_exists (files w) (os_path_join COMFYUI_LORA_DIR filename) \<longrightarrow>
            download_from_huggingface e url w = (Inr filename, w))
       \<and> (\<not> os_path_exists (files w) (os_path_join COMFYUI_LORA_DIR filename) \<longrightarrow>
            trace (snd (download_from_huggingface e url w)) =
              trace w @ [HfHubDownload repo_id (segs ! 3) (join_str ''/'' (drop 4 segs)) HF_TEMP_DIR])
       \<and> (\<forall>f w'. download_from_huggingface e url w = (Inr f, w') \<longrightarrow> f = filename)"
proof -
  have parts: "split_str CHR ''/'' (path pr) = [] # segs"
    using assms(2,3) by simp
  have len: "\<not> length ([] # segs) < 5" using assms(4) by simp
  have i1: "py_index ([] # segs) 1 = Inr (segs ! 0)"
    using assms(4) by (auto simp add: py_index_def nth_Cons')
  have i2: "py_index ([] # segs) 2 = Inr (segs ! 1)"
    using assms(4) by (auto simp add: py_index_def nth_Cons')
  have i4: "py_index ([] # segs) 4 = Inr (segs ! 3)"
    using assms(4) by (auto simp add: py_index_def nth_Cons')
  have dr: "drop 5 ([] # segs) = drop 4 segs" by (simp add: numeral_eq_Suc)
  have ne: "drop 4 segs \<noteq> []" using assms(4) by simp
  have la: "py_index (drop 4 segs) (- 1) = Inr (last segs)"
    using py_index_last[OF ne] ne by simp
  have ex: "extract_parts_from_huggingface_url url = Inr (repo_id, segs ! 3, drop 4 segs, last segs)"
    unfolding extract_parts_from_huggingface_url_def
    using assms(4) by (simp add: assms(1) parts len i1 i2 i4 dr la assms(5) Let_def del: split_str.simps)
  show ?thesis
    using ex assms(6)
    by (auto simp: download_from_huggingface_def hf_hub_download_def Let_def
             split: sum.splits prod.splits)
qed

theorem huggingface_parts_witness:
  "urlparse ''https://huggingface.co/org/model/resolve/main/sub/weights.safetensors''
     = Inr \<lparr> scheme = ''https'', netloc = ''huggingface.co'',
             path = ''/org/model/resolve/main/sub/weights.safetensors'',
             params = [], query = [], fragment = [] \<rparr>
   \<and> split_str CHR ''/'' ''org/model/resolve/main/sub/weights.safetensors''
       = [''org'', ''model'', ''resolve'', ''main'', ''sub'', ''weights.safetensors'']
   \<and> extract_parts_from_huggingface_url ''https://huggingface.co/org/model/resolve/main/sub/weights.safetensors''
       = Inr (''org/model'', ''main'', [''sub'', ''weights.safetensors''], ''weights.safetensors'')
   \<and> join_str ''/'' [''sub'', ''weights.safetensors''] = ''sub/weights.safetensors''
   \<and> os_path_exists (files (cached_world ''org_model_weights.safetensors''))
        (os_path_join COMFYUI_LORA_DIR ''org_model_weights.safetensors'')
   \<and> download_from_huggingface offline_env
        ''https://huggingface.co/org/model/resolve/main/sub/weights.safetensors''
        (cached_world ''org_model_weights.safetensors'')
       = (Inr ''org_model_weights.safetensors'', cached_world ''org_model_weights.safetensors'')"
proof -
  have p: "urlparse ''https://huggingface.co/org/model/resolve/main/sub/weights.safetensors''
     = Inr \<lparr> scheme = ''https'', netloc = ''huggingface.co'',
             path = ''/org/model/resolve/main/sub/weights.safetensors'',
             params = [], query = [], fragment = [] \<rparr>"
    by code_simp
  have pa: "path \<lparr> scheme = ''https'', netloc = ''huggingface.co'',
             path = ''/org/model/resolve/main/sub/weights.safetensors'',
             params = [], query = [], fragment = [] \<rparr>
        = CHR ''/'' # ''org/model/resolve/main/sub/weights.safetensors''"
    by simp
  have s: "[''org'', ''model'', ''resolve'', ''main'', ''sub'', ''weights.safetensors'']
       = split_str CHR ''/'' ''org/model/resolve/main/sub/weights.safetensors''"
    by code_simp
  have l: "5 \<le> length [''org'', ''model'', ''resolve'', ''main'', ''sub'', ''weights.safetensors'']"
    by simp
  have r: "''org/model'' = [''org'', ''model'', ''resolve'', ''main'', ''sub'', ''weights.safetensors''] ! 0
        @ ''/'' @ [''org'', ''model'', ''resolve'', ''main'', ''sub'', ''weights.safetensors''] ! 1"
    by simp
  have f: "''org_model_weights.safetensors'' = replace_char CHR ''/'' CHR ''_'' ''org/model'' @ ''_''
        @ last [''org'', ''model'', ''resolve'', ''main'', ''sub'', ''weights.safetensors'']"
    by (simp add: replace_char_def)
  note t = huggingface_parts[OF p pa s l r f, where w = "cached_world ''org_model_weights.safetensors''"
      and e = offline_env]
  have ex: "os_path_exists (files (cached_world ''org_model_weights.safetensors''))
        (os_path_join COMFYUI_LORA_DIR ''org_model_weights.safetensors'')"
    by (simp add: cached_world_def os_path_exists_def)
  have e1: "extract_parts_from_huggingface_url ''https://huggingface.co/org/model/resolve/main/sub/weights.safetensors''
       = Inr (''org/model'', ''main'', [''sub'', ''weights.safetensors''], ''weights.safetensors'')"
    using t[THEN conjunct1] by simp
  have e2: "download_from_huggingface offline_env
        ''https://huggingface.co/org/model/resolve/main/sub/weights.safetensors''
        (cached_world ''org_model_weights.safetensors'')
       = (Inr ''org_model_weights.safetensors'', cached_world ''org_model_weights.safetensors'')"
    by (rule t[THEN conjunct2, THEN conjunct1, THEN mp, OF ex])
  have j: "join_str ''/'' [''sub'', ''weights.safetensors''] = ''sub/weights.safetensors''"
    by simp
  show ?thesis
    by (intro conjI p s[symmetric] e1 j ex e2)
qed

text \<open>
  C6. The guard of \<open>extract_parts_from_huggingface_url\<close> counts the empty piece before
  the leading slash of the path, so a URL with exactly four path segments passes it;
  \<open>filename_and_path\<close> is then empty and indexing it raises \<open>IndexError\<close>, which is not
  \<open>MalformedUrl\<close>, and \<open>download\<close> passes the error on. A URL with two segments is
  rejected by the guard.
\<close>

theorem huggingface_four_segments_index_error:
  "extract_parts_from_huggingface_url ''https://huggingface.co/org/model/resolve/main'' = Inl IndexError
   \<and> fst (download sample_unicode_lower offline_env ''https://huggingface.co/org/model/resolve/main'' empty_world)
       = Inl IndexError
   \<and> IndexError \<noteq> MalformedUrl ''https://huggingface.co/org/model/resolve/main''
   \<and> extract_parts_from_huggingface_url ''https://huggingface.co/org/model''
       = Inl (MalformedUrl ''https://huggingface.co/org/model'')"
  by code_simp

text \<open>
  A scheme is ASCII, so \<open>str.lower\<close> never asks the Unicode tables about it: this is
  why \<open>urlparse\<close> can do with \<open>ascii_lower\<close>.
\<close>

lemma lower_scheme: "list_all scheme_char s \<Longrightarrow> lower unicode_lower s = ascii_lower s"
proof -
  have "is_ascii c" if "scheme_char c" for c
    using that by (auto simp: scheme_char_def is_ascii_alpha_def is_digit_def is_ascii_def Let_def)
  then show "list_all scheme_char s \<Longrightarrow> lower unicode_lower s = ascii_lower s"
    by (auto simp: lower_def list_all_iff)
qed

text \<open>
  The values that \<open>parse_qs\<close> returns are never blank, so the loop of
  \<open>get_civitai_filename\<close> adds a part for exactly the parameters that \<open>parse_qs\<close> has found.
\<close>

lemma decode_replace_Nil_iff: "decode_replace s = [] \<longleftrightarrow> s = []"
  by (cases s) (auto simp: replacement_character_def Let_def)

lemma unquote_to_bytes_Nil_iff: "unquote_to_bytes s = [] \<longleftrightarrow> s = []"
  by (induction s rule: unquote_to_bytes.induct) (auto split: option.splits)

lemma unquote_runs_Nil_iff: "unquote_runs s = [] \<longleftrightarrow> s = []"
  by (cases s) (auto simp: decode_replace_Nil_iff unquote_to_bytes_Nil_iff)

lemma unquote_Nil_iff: "unquote s = [] \<longleftrightarrow> s = []"
  by (auto simp: unquote_def unquote_runs_Nil_iff)

lemma parse_field_value: "(n, v) \<in> set (parse_field f) \<Longrightarrow> v \<noteq> []"
  by (auto simp: parse_field_def Let_def unquote_Nil_iff replace_char_def split: if_splits)

lemma parse_qs_value:
  assumes "parse_qs qs p = Some vs"
  shows "vs \<noteq> [] \<and> hd vs \<noteq> []"
proof -
  from assms have vs: "vs = map snd (filter (\<lambda>nv. fst nv = p) (parse_qsl qs))" and ne: "vs \<noteq> []"
    by (auto simp: parse_qs_def Let_def split: if_splits)
  from ne have "hd vs \<in> set vs" by simp
  then obtain n where "(n, hd vs) \<in> set (parse_qsl qs)"
    unfolding vs by auto
  then have "hd vs \<noteq> []"
    by (auto simp: parse_qsl_def dest: parse_field_value)
  with ne show ?thesis by simp
qed

lemma civitai_params_eq:
  assumes "\<And>p vs. q p = Some vs \<Longrightarrow> vs \<noteq> [] \<and> hd vs \<noteq> []"
  shows "civitai_params unicode_lower q ps acc =
           Inr (acc @ concat (map (\<lambda>p. case q p of None \<Rightarrow> [] | Some vs \<Rightarrow> [lower unicode_lower (hd vs)]) ps))"
proof (induction ps arbitrary: acc)
  case Nil
  show ?case by simp
next
  case (Cons p ps)
  show ?case
  proof (cases "q p")
    case None
    then show ?thesis by (simp add: Cons.IH dict_get_def py_index_def)
  next
    case (Some vs)
    with assms have "vs \<noteq> []" "hd vs \<noteq> []" by auto
    with Some show ?thesis
      by (simp add: Cons.IH dict_get_def py_index_def hd_conv_nth)
  qed
qed

lemma join_str_Cons: "join_str sep (x # ys) = x @ concat (map ((@) sep) ys)"
  by (induction ys arbitrary: x) auto

lemma concat_optional:
  "concat (map ((@) sep) (concat (map (\<lambda>p. case q p of None \<Rightarrow> [] | Some vs \<Rightarrow> [g vs]) ps)))
     = concat (map (\<lambda>p. case q p of None \<Rightarrow> [] | Some vs \<Rightarrow> sep @ g vs) ps)"
  by (induction ps) (auto split: option.splits)

text \<open>
  C4. For a URL that \<open>urlparse\<close> accepts, \<open>get_civitai_filename\<close> returns \<open>civitai_\<close>, the
  last piece of the path split at slashes as the model id, then for each of \<open>type\<close>,
  \<open>format\<close>, \<open>size\<close>, \<open>fp\<close>, in this order, that \<open>parse_qs\<close> finds in the query an
  underscore and what \<open>str.lower\<close> makes of the parameter's first value, then
  \<open>.safetensors\<close>. A parameter is present when \<open>parse_qs\<close> has it; a parameter with a
  blank value is not. The value is the decoded one: percent escapes that spell a
  character outside ASCII give that character, and its lower case is the one of the
  Unicode tables.
\<close>

theorem civitai_filename:
  assumes "urlparse url = Inr pr"
  shows "get_civitai_filename unicode_lower url =
           Inr (''civitai_'' @ last (split_str CHR ''/'' (path pr))
                @ concat (map (\<lambda>p. case parse_qs (query pr) p of
                                      None \<Rightarrow> []
                                    | Some vs \<Rightarrow> ''_'' @ lower unicode_lower (hd vs))
                            [''type'', ''format'', ''size'', ''fp''])
                @ ''.safetensors'')"
proof -
  have m: "py_index (split_str CHR ''/'' (path pr)) (- 1) = Inr (last (split_str CHR ''/'' (path pr)))"
    by (rule py_index_last[OF split_str_not_Nil])
  have ps: "civitai_params unicode_lower (parse_qs (query pr)) [''type'', ''format'', ''size'', ''fp''] acc =
      Inr (acc @ concat (map (\<lambda>p. case parse_qs (query pr) p of None \<Rightarrow> [] | Some vs \<Rightarrow> [lower unicode_lower (hd vs)])
                          [''type'', ''format'', ''size'', ''fp'']))" for acc
    by (rule civitai_params_eq) (rule parse_qs_value)
  show ?thesis
    unfolding get_civitai_filename_def
    by (simp only: assms m ps sum.case append_Cons append_Nil join_str_Cons concat_optional append_assoc)
qed

theorem civitai_filename_witness:
  "urlparse ''https://civitai.com/api/download/models/12345?type=Model&format=SafeTensor''
     = Inr \<lparr> scheme = ''https'', netloc = ''civitai.com'', path = ''/api/download/models/12345'',
             params = [], query = ''type=Model&format=SafeTensor'', fragment = [] \<rparr>
   \<and> get_civitai_filename sample_unicode_lower
         ''https://civitai.com/api/download/models/12345?type=Model&format=SafeTensor''
     = Inr ''civitai_12345_model_safetensor.safetensors''
   \<and> urlparse ''https://civitai.com/api/download/models/1?type=%C3%89''
     = Inr \<lparr> scheme = ''https'', netloc = ''civitai.com'', path = ''/api/download/models/1'',
             params = [], query = ''type=%C3%89'', fragment = [] \<rparr>
   \<and> parse_qs ''type=%C3%89'' ''type'' = Some [[char_of (195::nat), char_of (137::nat)]]
   \<and> get_civitai_filename sample_unicode_lower ''https://civitai.com/api/download/models/1?type=%C3%89''
     = Inr (''civitai_1_'' @ [char_of (195::nat), char_of (169::nat)] @ ''.safetensors'')"
proof -
  have p: "urlparse ''https://civitai.com/api/download/models/12345?type=Model&format=SafeTensor''
     = Inr \<lparr> scheme = ''https'', netloc = ''civitai.com'', path = ''/api/download/models/12345'',
             params = [], query = ''type=Model&format=SafeTensor'', fragment = [] \<rparr>"
    by code_simp
  have rhs: "''civitai_'' @ last (split_str CHR ''/'' ''/api/download/models/12345'')
                @ concat (map (\<lambda>p. case parse_qs ''type=Model&format=SafeTensor'' p of
                                      None \<Rightarrow> []
                                    | Some vs \<Rightarrow> ''_'' @ lower sample_unicode_lower (hd vs))
                            [''type'', ''format'', ''size'', ''fp''])
                @ ''.safetensors'' = ''civitai_12345_model_safetensor.safetensors''"
    by code_simp
  have eq: "get_civitai_filename sample_unicode_lower
         ''https://civitai.com/api/download/models/12345?type=Model&format=SafeTensor''
     = Inr ''civitai_12345_model_safetensor.safetensors''"
    using civitai_filename[OF p, where unicode_lower = sample_unicode_lower]
    by (simp only: parse_result.simps rhs)
  have p': "urlparse ''https://civitai.com/api/download/models/1?type=%C3%89''
     = Inr \<lparr> scheme = ''https'', netloc = ''civitai.com'', path = ''/api/download/models/1'',
             params = [], query = ''type=%C3%89'', fragment = [] \<rparr>"
    by code_simp
  have q': "parse_qs ''type=%C3%89'' ''type'' = Some [[char_of (195::nat), char_of (137::nat)]]"
    by code_simp
  have rhs': "''civitai_'' @ last (split_str CHR ''/'' ''/api/download/models/1'')
                @ concat (map (\<lambda>p. case parse_qs ''type=%C3%89'' p of
                                      None \<Rightarrow> []
                                    | Some vs \<Rightarrow> ''_'' @ lower sample_unicode_lower (hd vs))
                            [''type'', ''format'', ''size'', ''fp''])
                @ ''.safetensors''
              = ''civitai_1_'' @ [char_of (195::nat), char_of (169::nat)] @ ''.safetensors''"
    by code_simp
  have eq': "get_civitai_filename sample_unicode_lower ''https://civitai.com/api/download/models/1?type=%C3%89''
     = Inr (''civitai_1_'' @ [char_of (195::nat), char_of (169::nat)] @ ''.safetensors'')"
    using civitai_filename[OF p', where unicode_lower = sample_unicode_lower]
    by (simp only: parse_result.simps rhs')
  show ?thesis
    by (intro conjI p eq p' q' eq')
qed

text \<open>
  \<open>get_replicate_filename\<close> splits the whole URL, not its path: with a slash in the query
  the piece it takes is not the second-to-last segment of the path.
\<close>

theorem replicate_query_slash_counterexample:
  "startswith ''https://replicate.delivery/pbxt/abc/model.tar?a=b/c'' ''https://replicate.delivery''
   \<and> urlparse ''https://replicate.delivery/pbxt/abc/model.tar?a=b/c''
       = Inr \<lparr> scheme = ''https'', netloc = ''replicate.delivery'', path = ''/pbxt/abc/model.tar'',
               params = [], query = ''a=b/c'', fragment = [] \<rparr>
   \<and> py_index (split_str CHR ''/'' ''/pbxt/abc/model.tar'') (- 2) = Inr ''abc''
   \<and> get_replicate_filename ''https://replicate.delivery/pbxt/abc/model.tar?a=b/c''
       = Inr ''replicate_lora_model.tar?a=b.safetensors''
   \<and> get_replicate_filename ''https://replicate.delivery/pbxt/abc/model.tar?a=b/c''
       \<noteq> Inr (''replicate_lora_'' @ ''abc'' @ ''.safetensors'')"
  by code_simp

lemma replicate_pieces:
  assumes "startswith url ''https://replicate.delivery''"
  shows "2 \<le> length (split_str CHR ''/'' url)"
proof -
  from startswith_append[OF assms] have "CHR ''/'' \<in> set url"
    by (metis UnCI list.set_intros(1,2) set_append)
  then have "filter (\<lambda>c. c = CHR ''/'') url \<noteq> []"
    by (simp add: filter_empty_conv)
  then show ?thesis
    by (simp add: length_split_str Suc_le_eq)
qed

text \<open>
  Splitting a string that ends with \<open>b\<close>: the pieces of \<open>b\<close> after its first are the last
  pieces of the whole.
\<close>

lemma split_str_append:
  "split_str sep (a @ b) =
     butlast (split_str sep a) @ [last (split_str sep a) @ hd (split_str sep b)]
       @ tl (split_str sep b)"
proof (induction a)
  case Nil
  show ?case using split_str_not_Nil[of sep b] by simp
next
  case (Cons x a)
  show ?case
  proof (cases "split_str sep a")
    case Nil
    with split_str_not_Nil show ?thesis by blast
  next
    case (Cons p ps)
    with Cons.IH show ?thesis by (cases ps) auto
  qed
qed

lemma second_to_last_piece:
  assumes "3 \<le> length (split_str sep b)"
  shows "split_str sep (a @ b) ! (length (split_str sep (a @ b)) - 2)
           = split_str sep b ! (length (split_str sep b) - 2)"
proof -
  define pa where "pa = split_str sep a"
  define pb where "pb = split_str sep b"
  have la: "1 \<le> length pa"
    unfolding pa_def using split_str_not_Nil[of sep a] by (cases "split_str sep a") auto
  have lb: "3 \<le> length pb" using assms unfolding pb_def .
  have whole: "split_str sep (a @ b) = butlast pa @ [last pa @ hd pb] @ tl pb"
    unfolding pa_def pb_def by (rule split_str_append)
  have l1: "length (butlast pa @ [last pa @ hd pb] @ tl pb) = (length pa - 1) + 1 + (length pb - 1)"
    by simp
  have idx: "(length pa - 1) + 1 + (length pb - 1) - 2 = length (butlast pa) + (length pb - 2)"
    using la lb by (simp only: length_butlast)
  obtain k where k: "length pb - 2 = Suc k"
    using lb by (cases "length pb - 2") auto
  have e2: "(butlast pa @ [last pa @ hd pb] @ tl pb) ! (length (butlast pa) + (length pb - 2))
          = pb ! (length pb - 2)"
    unfolding k using lb by (cases pb) (auto simp add: nth_append)
  show ?thesis
    unfolding whole l1 idx pb_def[symmetric] by (rule e2)
qed

lemma pieces_of_suffix: "length (split_str sep b) \<le> length (split_str sep (a @ b))"
  by (simp add: length_split_str)

text \<open>
  C5, amended. For a URL that starts with the Replicate prefix, the file name is
  \<open>replicate_lora_\<close>, the second-to-last piece of the whole URL split at slashes, and
  \<open>.safetensors\<close>. When the URL ends with its path, so that nothing follows the path
  and \<open>urlparse\<close> has taken nothing out of it, and the path has at least two segments,
  that piece is the second-to-last segment of the path.
\<close>

theorem replicate_filename:
  "(startswith url ''https://replicate.delivery'' \<longrightarrow>
      get_replicate_filename url =
        Inr (''replicate_lora_''
             @ split_str CHR ''/'' url ! (length (split_str CHR ''/'' url) - 2)
             @ ''.safetensors''))
   \<and> (urlparse url = Inr pr \<and> url = front @ path pr \<and> path pr = CHR ''/'' # rest
        \<and> 2 \<le> length (split_str CHR ''/'' rest) \<longrightarrow>
      get_replicate_filename url =
        Inr (''replicate_lora_''
             @ split_str CHR ''/'' rest ! (length (split_str CHR ''/'' rest) - 2)
             @ ''.safetensors''))"
proof (intro conjI impI)
  assume "startswith url ''https://replicate.delivery''"
  from replicate_pieces[OF this]
  show "get_replicate_filename url =
        Inr (''replicate_lora_''
             @ split_str CHR ''/'' url ! (length (split_str CHR ''/'' url) - 2)
             @ ''.safetensors'')"
    by (simp add: get_replicate_filename_def py_index_def)
next
  assume a: "urlparse url = Inr pr \<and> url = front @ path pr \<and> path pr = CHR ''/'' # rest
        \<and> 2 \<le> length (split_str CHR ''/'' rest)"
  then have pieces: "split_str CHR ''/'' (path pr) = [] # split_str CHR ''/'' rest"
    by simp
  with a have three: "3 \<le> length (split_str CHR ''/'' (path pr))"
    by simp
  from a have "split_str CHR ''/'' url = split_str CHR ''/'' (front @ path pr)"
    by simp
  with second_to_last_piece[OF three, of front]
  have piece: "split_str CHR ''/'' url ! (length (split_str CHR ''/'' url) - 2)
      = split_str CHR ''/'' (path pr) ! (length (split_str CHR ''/'' (path pr)) - 2)"
    by simp
  have "split_str CHR ''/'' (path pr) ! (length (split_str CHR ''/'' (path pr)) - 2)
      = split_str CHR ''/'' rest ! (length (split_str CHR ''/'' rest) - 2)"
    using a unfolding pieces by (simp add: Suc_diff_le numeral_2_eq_2)
  with piece have same: "split_str CHR ''/'' url ! (length (split_str CHR ''/'' url) - 2)
      = split_str CHR ''/'' rest ! (length (split_str CHR ''/'' rest) - 2)"
    by simp
  from a have "url = front @ path pr"
    by simp
  with three pieces_of_suffix[of "CHR ''/''" "path pr" front]
  have "2 \<le> length (split_str CHR ''/'' url)"
    by simp
  then have "get_replicate_filename url =
        Inr (''replicate_lora_''
             @ split_str CHR ''/'' url ! (length (split_str CHR ''/'' url) - 2)
             @ ''.safetensors'')"
    by (simp add: get_replicate_filename_def py_index_def)
  with same show "get_replicate_filename url =
        Inr (''replicate_lora_''
             @ split_str CHR ''/'' rest ! (length (split_str CHR ''/'' rest) - 2)
             @ ''.safetensors'')"
    by simp
qed

theorem replicate_filename_witness:
  "startswith ''https://replicate.delivery/pbxt/abcdef123/trained_model.tar'' ''https://replicate.delivery''
   \<and> urlparse ''https://replicate.delivery/pbxt/abcdef123/trained_model.tar''
       = Inr \<lparr> scheme = ''https'', netloc = ''replicate.delivery'',
               path = ''/pbxt/abcdef123/trained_model.tar'',
               params = [], query = [], fragment = [] \<rparr>
   \<and> ''https://replicate.delivery/pbxt/abcdef123/trained_model.tar''
       = ''https://replicate.delivery'' @ ''/pbxt/abcdef123/trained_model.tar''
   \<and> split_str CHR ''/'' ''pbxt/abcdef123/trained_model.tar''
       = [''pbxt'', ''abcdef123'', ''trained_model.tar'']
   \<and> get_replicate_filename ''https://replicate.delivery/pbxt/abcdef123/trained_model.tar''
       = Inr ''replicate_lora_abcdef123.safetensors''"
proof -
  have h: "startswith ''https://replicate.delivery/pbxt/abcdef123/trained_model.tar'' ''https://replicate.delivery''"
    by (simp add: startswith_def)
  have p: "urlparse ''https://replicate.delivery/pbxt/abcdef123/trained_model.tar''
       = Inr \<lparr> scheme = ''https'', netloc = ''replicate.delivery'',
               path = ''/pbxt/abcdef123/trained_model.tar'',
               params = [], query = [], fragment = [] \<rparr>"
    by code_simp
  have u: "''https://replicate.delivery/pbxt/abcdef123/trained_model.tar''
       = ''https://replicate.delivery'' @ ''/pbxt/abcdef123/trained_model.tar''"
    by simp
  have s: "split_str CHR ''/'' ''pbxt/abcdef123/trained_model.tar''
       = [''pbxt'', ''abcdef123'', ''trained_model.tar'']"
    by code_simp
  note t = replicate_filename[where url = "''https://replicate.delivery/pbxt/abcdef123/trained_model.tar''"
      and pr = "\<lparr> scheme = ''https'', netloc = ''replicate.delivery'',
               path = ''/pbxt/abcdef123/trained_model.tar'',
               params = [], query = [], fragment = [] \<rparr>"
      and front = "''https://replicate.delivery''"
      and rest = "''pbxt/abcdef123/trained_model.tar''"]
  have whole: "''replicate_lora_''
                @ split_str CHR ''/'' ''https://replicate.delivery/pbxt/abcdef123/trained_model.tar''
                    ! (length (split_str CHR ''/'' ''https://replicate.delivery/pbxt/abcdef123/trained_model.tar'') - 2)
                @ ''.safetensors'' = ''replicate_lora_abcdef123.safetensors''"
    by code_simp
  have eq: "get_replicate_filename ''https://replicate.delivery/pbxt/abcdef123/trained_model.tar''
       = Inr ''replicate_lora_abcdef123.safetensors''"
    using t[THEN conjunct1, THEN mp, OF h] by (simp only: whole)
  have eq2: "get_replicate_filename ''https://replicate.delivery/pbxt/abcdef123/trained_model.tar''
       = Inr (''replicate_lora_''
             @ [''pbxt'', ''abcdef123'', ''trained_model.tar'']
                 ! (length [''pbxt'', ''abcdef123'', ''trained_model.tar''] - 2)
             @ ''.safetensors'')"
    using t[THEN conjunct2] p s by simp
  show ?thesis
    by (intro conjI h p u s eq)
qed

section \<open>Properties of \<open>predict.py\<close>\<close>

text \<open>
  Writing the inputs of one node leaves the inputs of every other node as they were.
\<close>

lemma get_inputs_put_inputs:
  "get_inputs workflow a = Inr x \<Longrightarrow>
   get_inputs (put_inputs workflow a y) b = (if b = a then Inr y else get_inputs workflow b)"
  by (auto simp: get_inputs_def put_inputs_def AList.update_conv'
           split: json.splits option.splits)

text \<open>
  C10. When \<open>update_workflow\<close> returns, node \<open>57\<close> holds \<open>nsfw, \<close> followed by the negative
  prompt of the request in both \<open>clip_l\<close> and \<open>t5xxl\<close>, and the nodes \<open>53\<close> and \<open>57\<close> both
  hold the guidance scale of the request in \<open>guidance\<close>.
\<close>

theorem negative_prompt_node:
  assumes "update_workflow workflow kw = Inr updated"
  shows "input_value updated ''57'' ''clip_l'' = Inr (JStr (''nsfw, '' @ negative_prompt kw))
       \<and> input_value updated ''57'' ''t5xxl'' = Inr (JStr (''nsfw, '' @ negative_prompt kw))
       \<and> input_value updated ''57'' ''guidance'' = Inr (JFloat (guidance_scale kw))
       \<and> input_value updated ''53'' ''guidance'' = Inr (JFloat (guidance_scale kw))"
  using assms
  by (auto simp: update_workflow_def input_value_def Let_def get_inputs_put_inputs set_items_def
                 AList.update_conv'
           split: sum.splits)

theorem negative_prompt_node_witness:
  "(case update_workflow sample_workflow sample_kwargs of
      Inl err \<Rightarrow> False
    | Inr updated \<Rightarrow>
        input_value updated ''57'' ''clip_l'' = Inr (JStr ''nsfw, blurry'')
        \<and> input_value updated ''57'' ''t5xxl'' = Inr (JStr ''nsfw, blurry'')
        \<and> input_value updated ''57'' ''guidance'' = Inr (JFloat (7 / 2))
        \<and> input_value updated ''53'' ''guidance'' = Inr (JFloat (7 / 2)))"
proof -
  have "\<not> isl (update_workflow sample_workflow sample_kwargs)"
    by code_simp
  then obtain updated where u: "update_workflow sample_workflow sample_kwargs = Inr updated"
    by (cases "update_workflow sample_workflow sample_kwargs") auto
  have k: "negative_prompt sample_kwargs = ''blurry''" "guidance_scale sample_kwargs = 7 / 2"
    by (simp_all add: sample_kwargs_def)
  from negative_prompt_node[OF u] show ?thesis
    by (simp add: u k)
qed

end
